theory Spec2Isabelle
  imports Main
begin

section \<open>The chat orchestration of the Excel assistant\<close>

text \<open>
  The development embeds \<^verbatim>\<open>handleSendMessage\<close> of the chat component
  (\<^verbatim>\<open>ChatInterface\<close>) together with the helpers it calls:
  \<^verbatim>\<open>handleEmbedding\<close>, \<^verbatim>\<open>handleEmbedAllWorksheets\<close> and the functions of
  \<^verbatim>\<open>embedding_operations.ts\<close>.

  Everything outside the repository's own code is a parameter that gives the outcome
  of each call: the JavaScript runtime (\<^verbatim>\<open>JSON.parse\<close>, property access, string
  conversion), the spreadsheet operations of \<^verbatim>\<open>excelOperations\<close>, and the
  two endpoints of the language-model client. An outcome is either a value
  (\<open>Inr\<close>) or the value thrown (\<open>Inl\<close>). The outcome of a host operation is a
  function of its arguments, so the order in which the concurrent callbacks of a
  batch complete cannot be observed in the model; \<^verbatim>\<open>Promise.all\<close> aligns
  its results with the positions of its inputs.
\<close>

subsection \<open>Thrown values\<close>

text \<open>
  A thrown JavaScript value, reduced to what the \<^verbatim>\<open>catch\<close> blocks inspect:
  \<^verbatim>\<open>error instanceof Error\<close>, \<^verbatim>\<open>error.message\<close>, and, for the test
  \<^verbatim>\<open>"response" in error\<close>, the value of \<^verbatim>\<open>error.response?.status\<close>
  (\<open>None\<close>: no \<^verbatim>\<open>response\<close> property; \<open>Some None\<close>: a response without a
  status). The three observations are independent: an \<^verbatim>\<open>Error\<close> instance may
  carry a \<^verbatim>\<open>response\<close>.
\<close>

datatype js_thrown =
  Thrown (instanceOfError: bool) (message: string) (response: "nat option option")

text \<open>\<^verbatim>\<open>new Error(msg)\<close>\<close>

definition new_Error :: "string \<Rightarrow> js_thrown" where
  "new_Error msg = Thrown True msg None"

text \<open>Sequencing of steps that may throw: the first thrown value propagates.\<close>

definition andThen :: "('e + 'a) \<Rightarrow> ('a \<Rightarrow> 'e + 'b) \<Rightarrow> 'e + 'b" where
  "andThen m f = (case m of Inl e \<Rightarrow> Inl e | Inr x \<Rightarrow> f x)"

subsection \<open>The environment\<close>

text \<open>
  \<open>'j\<close> is the type of JavaScript values (parsed arguments, their properties,
  \<^verbatim>\<open>undefined\<close> included, and the values the host returns); \<open>'v\<close> is the type
  of an embedding vector.

  The runtime: \<open>get_prop\<close> is property access (it throws on \<^verbatim>\<open>null\<close>),
  \<open>String_of\<close> the conversion a template literal applies, \<open>truthy\<close> the
  conversion to a boolean, \<open>undefined_read\<close> the \<^verbatim>\<open>TypeError\<close> thrown on reading
  the named property of \<^verbatim>\<open>undefined\<close>. \<open>ChartType_includes\<close> stands for
  \<^verbatim>\<open>Object.values(ChartType).includes\<close>; the enumeration is declared in
  \<^verbatim>\<open>./App\<close>.

  The host: one field for each function imported from \<^verbatim>\<open>excelOperations\<close>
  that the code calls.
\<close>

record tool_call =
  tc_id :: string
  tc_name :: string
  tc_arguments :: string

record completion_message =
  content :: "string option"
  tool_calls :: "tool_call list option"

text \<open>
  A message of a request to the model: the three text roles, the assistant message
  of a completion passed back as it was received, and a tool result.
\<close>

datatype chat_message =
  SystemMsg string
| UserMsg string
| AssistantMsg string
| CompletionMsg completion_message
| ToolMsg (tool_call_id: string) (tool_content: string)

text \<open>A tool descriptor of the catalog; the parameter schemas are constants that no
  step of the orchestration reads, and are left out.\<close>

record tool =
  tool_name :: string
  tool_description :: string

record chat_request =
  req_messages :: "chat_message list"
  req_model :: string
  req_tools :: "tool list"
  req_tool_choice :: string

record completion =
  choices :: "completion_message list"

record ('j, 'v) env =
  JSON_parse :: "string \<Rightarrow> js_thrown + 'j"
  get_prop :: "'j \<Rightarrow> string \<Rightarrow> js_thrown + 'j"
  String_of :: "'j \<Rightarrow> string"
  truthy :: "'j \<Rightarrow> bool"
  JSON_stringify :: "'j \<Rightarrow> string"
  undefined_read :: "string \<Rightarrow> js_thrown"
  ChartType_includes :: "'j \<Rightarrow> bool"
  writeToCellOperation :: "'j \<Rightarrow> 'j \<Rightarrow> js_thrown + unit"
  readFromCellOperation :: "'j \<Rightarrow> js_thrown + 'j"
  formatCellOperation :: "'j \<Rightarrow> 'j \<Rightarrow> 'j \<Rightarrow> 'j \<Rightarrow> js_thrown + unit"
  addChartOperation :: "'j \<Rightarrow> 'j \<Rightarrow> js_thrown + unit"
  getRangeData :: "'j option \<Rightarrow> js_thrown + ('j \<times> 'j)"
  analyzeData :: "'j \<Rightarrow> 'j \<Rightarrow> js_thrown + 'j"
  addPivotTableOperation :: "'j \<Rightarrow> 'j \<Rightarrow> 'j \<Rightarrow> 'j \<Rightarrow> 'j \<Rightarrow> 'j \<Rightarrow> js_thrown + unit"
  manageWorksheet :: "'j \<Rightarrow> 'j \<Rightarrow> js_thrown + string"
  filterDataOperation :: "'j \<Rightarrow> 'j \<Rightarrow> 'j \<Rightarrow> 'j \<Rightarrow> js_thrown + ('j \<times> 'j)"
  sortDataOperation :: "'j \<Rightarrow> 'j \<Rightarrow> 'j \<Rightarrow> 'j \<Rightarrow> js_thrown + string"
  mergeCellsOperation :: "'j \<Rightarrow> 'j \<Rightarrow> js_thrown + string"
  unmergeCellsOperation :: "'j \<Rightarrow> js_thrown + string"
  autofitColumnsOperation :: "'j \<Rightarrow> js_thrown + string"
  autofitRowsOperation :: "'j \<Rightarrow> js_thrown + string"
  applyConditionalFormat :: "'j \<Rightarrow> 'j \<Rightarrow> 'j \<Rightarrow> 'j \<Rightarrow> js_thrown + string"
  clearConditionalFormats :: "'j \<Rightarrow> js_thrown + string"
  getWorksheetNames :: "js_thrown + string list"
  getActiveWorksheetName :: "js_thrown + string"
  getSelectedRangeInfo :: "js_thrown + ('j \<times> 'j \<times> 'j)"
  getCurrentSheetContent :: "string \<Rightarrow> js_thrown + string"
  chat_completions_create :: "chat_request \<Rightarrow> js_thrown + completion"
  embeddings_create :: "string \<Rightarrow> js_thrown + 'v list"

subsection \<open>The adapter: one callback of the batch\<close>

text \<open>\<^verbatim>\<open>names.join(", ")\<close>\<close>

fun join :: "string \<Rightarrow> string list \<Rightarrow> string" where
  "join sep [] = []"
| "join sep [x] = x"
| "join sep (x # y # ys) = x @ sep @ join sep (y # ys)"

text \<open>
  The message of a caught value in the two inner \<^verbatim>\<open>catch\<close> blocks of
  \<^verbatim>\<open>analyze_selected_range\<close> and \<^verbatim>\<open>read_range\<close>.
\<close>

definition inlineFailure :: "js_thrown \<Rightarrow> string" where
  "inlineFailure error =
     (if instanceOfError error then message error else ''Unknown error occurred'')"

text \<open>
  The \<^verbatim>\<open>switch\<close> on \<^verbatim>\<open>toolCall.function.name\<close>, inside the \<^verbatim>\<open>try\<close>
  of the callback: it returns \<^verbatim>\<open>functionResult\<close>, or the value thrown to the
  \<^verbatim>\<open>catch\<close> of the callback. The cases are in the order of the source.
\<close>

definition toolSwitch :: "('j, 'v) env \<Rightarrow> string \<Rightarrow> 'j \<Rightarrow> js_thrown + string" where
  "toolSwitch E name args =
    (if name = ''write_to_excel'' then
       andThen (get_prop E args ''startCell'') (\<lambda>startCell.
       andThen (get_prop E args ''values'') (\<lambda>values.
       andThen (writeToCellOperation E startCell values) (\<lambda>_.
       Inr (''Values written to range starting at '' @ String_of E startCell))))
     else if name = ''read_from_excel'' then
       andThen (get_prop E args ''cellAddress'') (\<lambda>cellAddress.
       andThen (readFromCellOperation E cellAddress) (\<lambda>cellValue.
       Inr (''The value in cell '' @ String_of E cellAddress @ '' is '' @
            [CHR 0x22] @ String_of E cellValue @ [CHR 0x22])))
     else if name = ''format_cell'' then
       andThen (get_prop E args ''cellAddress'') (\<lambda>cellAddress.
       andThen (get_prop E args ''fontColor'') (\<lambda>fontColor.
       andThen (get_prop E args ''backgroundColor'') (\<lambda>backgroundColor.
       andThen (get_prop E args ''bold'') (\<lambda>bold.
       andThen (formatCellOperation E cellAddress fontColor backgroundColor bold) (\<lambda>_.
       Inr (''Cell '' @ String_of E cellAddress @ '' formatted as requested''))))))
     else if name = ''add_chart'' then
       andThen (get_prop E args ''chartType'') (\<lambda>chartType.
       if \<not> ChartType_includes E chartType
       then Inl (new_Error (''Invalid chart type: '' @ String_of E chartType))
       else
       andThen (get_prop E args ''dataRange'') (\<lambda>dataRange.
       if \<not> truthy E dataRange
       then Inl (new_Error ''Data range is required to create a chart.'')
       else
       andThen (addChartOperation E dataRange chartType) (\<lambda>_.
       Inr (''Added '' @ String_of E chartType @ '' chart using data from range '' @
            String_of E dataRange))))
     else if name = ''analyze_selected_range'' then
       (case andThen (getRangeData E None) (\<lambda>(address, values).
             andThen (get_prop E args ''analysisType'') (\<lambda>analysisType.
             andThen (analyzeData E values analysisType) (\<lambda>analysisResult.
             Inr (''Analysis of selected range '' @ String_of E address @ '':'' @
                  [CHR 0x0A] @ String_of E analysisResult)))) of
          Inr functionResult \<Rightarrow> Inr functionResult
        | Inl error \<Rightarrow>
            Inr (''Failed to analyze the selected range. '' @ inlineFailure error))
     else if name = ''read_range'' then
       (case andThen (get_prop E args ''rangeAddress'') (\<lambda>rangeAddress.
             andThen (getRangeData E (Some rangeAddress)) (\<lambda>(address, values).
             Inr (''The values in range '' @ String_of E address @ '' are:'' @
                  [CHR 0x0A] @ JSON_stringify E values))) of
          Inr functionResult \<Rightarrow> Inr functionResult
        | Inl error \<Rightarrow> Inr (''Failed to read range. '' @ inlineFailure error))
     else if name = ''add_pivot'' then
       andThen (get_prop E args ''sourceDataRange'') (\<lambda>sourceDataRange.
       andThen (get_prop E args ''destinationCell'') (\<lambda>destinationCell.
       andThen (get_prop E args ''rowFields'') (\<lambda>rowFields.
       andThen (get_prop E args ''columnFields'') (\<lambda>columnFields.
       andThen (get_prop E args ''dataFields'') (\<lambda>dataFields.
       andThen (get_prop E args ''filterFields'') (\<lambda>filterFields.
       andThen (addPivotTableOperation E sourceDataRange destinationCell rowFields
                  columnFields dataFields filterFields) (\<lambda>_.
       Inr (''Added pivot table using data from range '' @ String_of E sourceDataRange @
            '' and placed at '' @ String_of E destinationCell))))))))
     else if name = ''manage_worksheet'' then
       andThen (get_prop E args ''action'') (\<lambda>action.
       andThen (get_prop E args ''sheetName'') (\<lambda>sheetName.
       manageWorksheet E action sheetName))
     else if name = ''filter_data'' then
       andThen (get_prop E args ''range'') (\<lambda>range.
       andThen (get_prop E args ''column'') (\<lambda>column.
       andThen (get_prop E args ''filterType'') (\<lambda>filterType.
       andThen (get_prop E args ''criteria'') (\<lambda>criteria.
       andThen (filterDataOperation E range column filterType criteria)
         (\<lambda>(filterRange, filteredCount).
       Inr (''Data filtered in range '' @ String_of E filterRange @ ''. '' @
            String_of E filteredCount @ '' rows match the criteria.''))))))
     else if name = ''sort_data'' then
       andThen (get_prop E args ''range'') (\<lambda>range.
       andThen (get_prop E args ''sortFields'') (\<lambda>sortFields.
       andThen (get_prop E args ''matchCase'') (\<lambda>matchCase.
       andThen (get_prop E args ''hasHeaders'') (\<lambda>hasHeaders.
       sortDataOperation E range sortFields matchCase hasHeaders))))
     else if name = ''merge_cells'' then
       andThen (get_prop E args ''range'') (\<lambda>range.
       andThen (get_prop E args ''across'') (\<lambda>across.
       mergeCellsOperation E range across))
     else if name = ''unmerge_cells'' then
       andThen (get_prop E args ''range'') (unmergeCellsOperation E)
     else if name = ''autofit_columns'' then
       andThen (get_prop E args ''range'') (autofitColumnsOperation E)
     else if name = ''autofit_rows'' then
       andThen (get_prop E args ''range'') (autofitRowsOperation E)
     else if name = ''apply_conditional_format'' then
       andThen (get_prop E args ''range'') (\<lambda>range.
       andThen (get_prop E args ''formatType'') (\<lambda>formatType.
       andThen (get_prop E args ''rule'') (\<lambda>rule.
       andThen (get_prop E args ''format'') (\<lambda>format.
       applyConditionalFormat E range formatType rule format))))
     else if name = ''clear_conditional_formats'' then
       andThen (get_prop E args ''range'') (clearConditionalFormats E)
     else if name = ''get_worksheet_names'' then
       andThen (getWorksheetNames E) (\<lambda>worksheetNames.
       Inr (''The worksheets in this workbook are: '' @ join '', '' worksheetNames))
     else if name = ''get_active_worksheet_name'' then
       andThen (getActiveWorksheetName E) (\<lambda>activeWorksheetName.
       Inr (''The currently active worksheet is: '' @ activeWorksheetName))
     else Inr ''I'm not sure how to perform that action.'')"

text \<open>
  The callback that \<^verbatim>\<open>toolCalls.map\<close> runs on one tool call.
  \<^verbatim>\<open>JSON.parse\<close> stands before the \<^verbatim>\<open>try\<close>: a value it throws rejects the
  promise of the callback. Everything thrown inside the \<^verbatim>\<open>try\<close> becomes the
  content of the tool message.
\<close>

definition caughtResult :: "js_thrown \<Rightarrow> string" where
  "caughtResult error =
     (if instanceOfError error then ''Error: '' @ message error
      else ''An unknown error occurred.'')"

definition toolCallback :: "('j, 'v) env \<Rightarrow> tool_call \<Rightarrow> js_thrown + chat_message" where
  "toolCallback E toolCall =
     andThen (JSON_parse E (tc_arguments toolCall)) (\<lambda>args.
       let functionResult =
             (case toolSwitch E (tc_name toolCall) args of
                Inr r \<Rightarrow> r
              | Inl error \<Rightarrow> caughtResult error)
       in Inr (ToolMsg (tc_id toolCall) functionResult))"

text \<open>
  \<^verbatim>\<open>Promise.all\<close>: the results in the order of the inputs, or the first
  rejection. The only rejections of the batch come from \<^verbatim>\<open>JSON.parse\<close>, which
  runs while \<^verbatim>\<open>map\<close> starts the callbacks one after the other, so the first
  rejection is the leftmost one.
\<close>

fun Promise_all :: "('e + 'a) list \<Rightarrow> 'e + 'a list" where
  "Promise_all [] = Inr []"
| "Promise_all (p # ps) =
     (case p of
        Inl e \<Rightarrow> Inl e
      | Inr x \<Rightarrow> (case Promise_all ps of Inl e \<Rightarrow> Inl e | Inr xs \<Rightarrow> Inr (x # xs)))"

subsection \<open>The component state\<close>

text \<open>
  \<open>messages\<close>, \<open>activeWorksheet\<close> and the loading flag are the React state the
  function reads and sets; \<open>openaiRef\<close> tells whether \<^verbatim>\<open>openaiRef.current\<close> holds
  a client. Two logs make the calls observable: \<open>gateway_log\<close> holds the requests
  passed to \<^verbatim>\<open>chat.completions.create\<close>, \<open>adapter_log\<close> the tool calls for
  which the \<^verbatim>\<open>switch\<close> of the callback was entered.
\<close>

record chat_entry =
  msg_text :: string
  isUser :: bool

record state =
  messages :: "chat_entry list"
  activeWorksheet :: string
  isLoading :: bool
  openaiRef :: bool
  gateway_log :: "chat_request list"
  adapter_log :: "tool_call list"

text \<open>\<^verbatim>\<open>setMessages((prevMessages) => [...prevMessages, m])\<close>\<close>

definition addMessage :: "chat_entry \<Rightarrow> state \<Rightarrow> state" where
  "addMessage m st = st\<lparr>messages := messages st @ [m]\<rparr>"

subsection \<open>The embedding pre-step\<close>

text \<open>\<^verbatim>\<open>getEmbedding\<close>, \<^verbatim>\<open>embedWorksheet\<close> and \<^verbatim>\<open>embedAllWorksheets\<close> of
  \<^verbatim>\<open>embedding_operations.ts\<close>. A \<^verbatim>\<open>catch\<close> that logs and throws the same
  value again leaves the outcome as it is.\<close>

definition getEmbedding :: "('j, 'v) env \<Rightarrow> string \<Rightarrow> js_thrown + 'v" where
  "getEmbedding E txt =
     andThen (embeddings_create E txt) (\<lambda>data.
       case data of
         [] \<Rightarrow> Inl (undefined_read E ''embedding'')
       | d # _ \<Rightarrow> Inr d)"

definition embedWorksheet :: "('j, 'v) env \<Rightarrow> string \<Rightarrow> js_thrown + 'v" where
  "embedWorksheet E sheetName =
     andThen (getCurrentSheetContent E sheetName) (\<lambda>sheetContent.
     andThen (getEmbedding E sheetContent) (\<lambda>embedding.
     Inr embedding))"

fun embedEach :: "('j, 'v) env \<Rightarrow> string list \<Rightarrow> (string \<rightharpoonup> 'v) \<Rightarrow> (string \<rightharpoonup> 'v)" where
  "embedEach E [] embeddings = embeddings"
| "embedEach E (name # names) embeddings =
     embedEach E names
       (case andThen (getCurrentSheetContent E name) (getEmbedding E) of
          Inr embedding \<Rightarrow> embeddings(name \<mapsto> embedding)
        | Inl _ \<Rightarrow> embeddings)"

definition embedAllWorksheets :: "('j, 'v) env \<Rightarrow> js_thrown + (string \<rightharpoonup> 'v)" where
  "embedAllWorksheets E =
     andThen (getWorksheetNames E) (\<lambda>worksheetNames.
     Inr (embedEach E worksheetNames Map.empty))"

text \<open>\<^verbatim>\<open>handleEmbedding\<close> and \<^verbatim>\<open>handleEmbedAllWorksheets\<close> of the component:
  both report in the store and, on failure, throw the caught value again.\<close>

definition handleEmbedding ::
  "('j, 'v) env \<Rightarrow> string \<Rightarrow> state \<Rightarrow> (js_thrown + 'v) \<times> state" where
  "handleEmbedding E sheetName st =
     (case embedWorksheet E sheetName of
        Inr embeddingResult \<Rightarrow>
          (Inr embeddingResult,
           addMessage \<lparr>msg_text = ''Embedding for worksheet '' @ [CHR 0x22] @ sheetName @
                         [CHR 0x22] @ '' created successfully.'', isUser = False\<rparr> st)
      | Inl error \<Rightarrow>
          (Inl error,
           addMessage \<lparr>msg_text = ''Error creating embedding. Please try again.'',
                       isUser = False\<rparr> st))"

definition handleEmbedAllWorksheets ::
  "('j, 'v) env \<Rightarrow> state \<Rightarrow> (js_thrown + (string \<rightharpoonup> 'v)) \<times> state" where
  "handleEmbedAllWorksheets E st =
     (case embedAllWorksheets E of
        Inr embeddingResults \<Rightarrow>
          (Inr embeddingResults,
           addMessage \<lparr>msg_text = ''Embeddings for all worksheets created successfully.'',
                       isUser = False\<rparr> st)
      | Inl error \<Rightarrow>
          (Inl error,
           addMessage \<lparr>msg_text =
                         ''Error creating embeddings for all worksheets. Please try again.'',
                       isUser = False\<rparr> st))"

text \<open>The loop \<^verbatim>\<open>for (const sheetName of taggedSheets) await handleEmbedding(sheetName)\<close>:
  the first failure leaves the loop.\<close>

fun embedTagged :: "('j, 'v) env \<Rightarrow> string list \<Rightarrow> state \<Rightarrow> (js_thrown + unit) \<times> state" where
  "embedTagged E [] st = (Inr (), st)"
| "embedTagged E (sheetName # rest) st =
     (case handleEmbedding E sheetName st of
        (Inl error, st') \<Rightarrow> (Inl error, st')
      | (Inr _, st') \<Rightarrow> embedTagged E rest st')"

definition preStep :: "('j, 'v) env \<Rightarrow> string list \<Rightarrow> state \<Rightarrow> (js_thrown + unit) \<times> state" where
  "preStep E taggedSheets st =
     (if ''workbook'' \<in> set taggedSheets then
        (case handleEmbedAllWorksheets E st of
           (Inl error, st') \<Rightarrow> (Inl error, st')
         | (Inr _, st') \<Rightarrow> (Inr (), st'))
      else embedTagged E taggedSheets st)"

subsection \<open>The requests to the model\<close>

text \<open>The system instruction of the first request and that of the second; both
  embed the \<open>activeWorksheet\<close> of the component state.\<close>

definition systemPrompt1 :: "string \<Rightarrow> string" where
  \<open>systemPrompt1 activeWorksheet0 =
     ''You are a helpful assistant that interacts with Excel. You can '' @
     ''access multiple worksheets in the workbook. The currently active '' @
     ''worksheet is "'' @
     activeWorksheet0 @
     ''". Use the get_worksheet_names function to get a list of all '' @
     ''available worksheets, and get_active_worksheet_name to check which '' @
     ''worksheet is currently active. Follow the user's instructions to '' @
     ''manipulate Excel spreadsheets, using the provided functions. You '' @
     ''can create charts, pivot tables, filter data using a wide range of '' @
     ''criteria, and perform various data operations. Ensure your '' @
     ''responses are clear and formatted using markdown for better '' @
     ''readability. You can use tables to present data when appropriate. '' @
     ''Assure you use the functions in the appropriate order to achieve '' @
     ''the desired result (i.e. don't use execute all functions at once).''\<close>

definition systemPrompt2 :: "string \<Rightarrow> string" where
  \<open>systemPrompt2 activeWorksheet0 =
     ''You are a helpful assistant that interacts with Excel. You can '' @
     ''access multiple worksheets in the workbook. The currently active '' @
     ''worksheet is "'' @
     activeWorksheet0 @
     ''". Use the get_worksheet_names function to get a list of all '' @
     ''available worksheets, and get_active_worksheet_name to check which '' @
     ''worksheet is currently active. Follow the user's instructions to '' @
     ''manipulate Excel spreadsheets, using the provided functions. You '' @
     ''can create charts, pivot tables, filter data using a wide range of '' @
     ''criteria, and perform various data operations. Ensure your '' @
     ''responses are clear and formatted using markdown for better '' @
     ''readability. You can use tables to present data when appropriate.''\<close>

text \<open>The catalog: the names and descriptions of the nineteen tools, in the order of
  the source. The description of \<^verbatim>\<open>write_to_selected_range\<close> embeds the
  selection read before the first request.\<close>

definition tools :: "('j, 'v) env \<Rightarrow> 'j \<Rightarrow> 'j \<Rightarrow> 'j \<Rightarrow> tool list" where
  "tools E address rowCount columnCount =
     [\<lparr>tool_name = ''write_to_excel'',
        tool_description = ''Write values to a range of cells in Excel''\<rparr>,
      \<lparr>tool_name = ''read_from_excel'',
        tool_description = ''Read a value from a specific cell in Excel''\<rparr>,
      \<lparr>tool_name = ''format_cell'',
        tool_description = ''Format a cell in Excel''\<rparr>,
      \<lparr>tool_name = ''add_chart'',
        tool_description = ''Add a chart to the Excel worksheet''\<rparr>,
      \<lparr>tool_name = ''analyze_selected_range'',
        tool_description = ''Analyze the data in the currently selected range in Excel''\<rparr>,
      \<lparr>tool_name = ''write_to_selected_range'',
        tool_description = ''Write values to the currently selected range in Excel ('' @ String_of E address @
          '', '' @ String_of E rowCount @ ''x'' @ String_of E columnCount @
          ''). If the input is larger, it will be trimmed to fit.''\<rparr>,
      \<lparr>tool_name = ''read_range'',
        tool_description = ''Read values from a specific range or the currently selected range in Excel''\<rparr>,
      \<lparr>tool_name = ''add_pivot'',
        tool_description = ''Add a pivot table to the Excel worksheet''\<rparr>,
      \<lparr>tool_name = ''manage_worksheet'',
        tool_description = ''Create a new worksheet or delete an existing one in Excel''\<rparr>,
      \<lparr>tool_name = ''filter_data'',
        tool_description = ''Filter data in Excel based on specified criteria''\<rparr>,
      \<lparr>tool_name = ''sort_data'',
        tool_description = ''Sort data in an Excel range based on specified criteria''\<rparr>,
      \<lparr>tool_name = ''merge_cells'',
        tool_description = ''Merge cells in a specified range''\<rparr>,
      \<lparr>tool_name = ''unmerge_cells'',
        tool_description = ''Unmerge cells in a specified range''\<rparr>,
      \<lparr>tool_name = ''autofit_columns'',
        tool_description = ''Auto-fit columns in a specified range''\<rparr>,
      \<lparr>tool_name = ''autofit_rows'',
        tool_description = ''Auto-fit rows in a specified range''\<rparr>,
      \<lparr>tool_name = ''apply_conditional_format'',
        tool_description = ''Apply a conditional format to a range in Excel''\<rparr>,
      \<lparr>tool_name = ''clear_conditional_formats'',
        tool_description = ''Clear all conditional formats from a range in Excel''\<rparr>,
      \<lparr>tool_name = ''get_worksheet_names'',
        tool_description = ''Get the names of all worksheets in the current workbook''\<rparr>,
      \<lparr>tool_name = ''get_active_worksheet_name'',
        tool_description = ''Get the name of the currently active worksheet''\<rparr>]"

text \<open>\<^verbatim>\<open>messages.map((msg) => ({ role: msg.isUser ? "user" : "assistant", content: msg.text }))\<close>\<close>

definition toChatMessage :: "chat_entry \<Rightarrow> chat_message" where
  "toChatMessage msg = (if isUser msg then UserMsg (msg_text msg) else AssistantMsg (msg_text msg))"

definition request1 ::
  "chat_entry list \<Rightarrow> string \<Rightarrow> string \<Rightarrow> tool list \<Rightarrow> chat_request" where
  "request1 messages0 activeWorksheet0 txt tools0 =
     \<lparr>req_messages =
        [SystemMsg (systemPrompt1 activeWorksheet0)] @ map toChatMessage messages0 @
        [UserMsg txt],
      req_model = ''gpt-4o-2024-08-06'',
      req_tools = tools0,
      req_tool_choice = ''auto''\<rparr>"

definition completionPayload ::
  "chat_entry list \<Rightarrow> string \<Rightarrow> string \<Rightarrow> completion_message \<Rightarrow> chat_message list \<Rightarrow>
   tool list \<Rightarrow> chat_request" where
  "completionPayload messages0 activeWorksheet0 txt message0 toolResults tools0 =
     \<lparr>req_messages =
        [SystemMsg (systemPrompt2 activeWorksheet0)] @ map toChatMessage messages0 @
        [UserMsg txt] @ [CompletionMsg message0] @ toolResults,
      req_model = ''gpt-4o-2024-08-06'',
      req_tools = tools0,
      req_tool_choice = ''auto''\<rparr>"

text \<open>
  \<^verbatim>\<open>await openaiRef.current?.chat.completions.create(request)\<close>: without a
  client the result is \<^verbatim>\<open>undefined\<close> (\<open>None\<close>) and nothing is sent.
\<close>

definition createCompletion ::
  "('j, 'v) env \<Rightarrow> chat_request \<Rightarrow> state \<Rightarrow> (js_thrown + completion option) \<times> state" where
  "createCompletion E request st =
     (if openaiRef st then
        (case chat_completions_create E request of
           Inl error \<Rightarrow> (Inl error, st\<lparr>gateway_log := gateway_log st @ [request]\<rparr>)
         | Inr c \<Rightarrow> (Inr (Some c), st\<lparr>gateway_log := gateway_log st @ [request]\<rparr>))
      else (Inr None, st))"

text \<open>\<^verbatim>\<open>completion?.choices[0]?.message\<close>\<close>

definition firstMessage :: "completion option \<Rightarrow> completion_message option" where
  "firstMessage c =
     (case c of
        None \<Rightarrow> None
      | Some c' \<Rightarrow> (case choices c' of [] \<Rightarrow> None | m # _ \<Rightarrow> Some m))"

text \<open>The test of \<^verbatim>\<open>...?.message?.content\<close>: a string is truthy when it is not
  empty.\<close>

definition truthyContent :: "completion option \<Rightarrow> string option" where
  "truthyContent c =
     (case firstMessage c of
        None \<Rightarrow> None
      | Some m \<Rightarrow> (case content m of None \<Rightarrow> None | Some s \<Rightarrow> if s = [] then None else Some s))"

subsection \<open>One turn\<close>

text \<open>The batch: every callback is started; the log takes the tool calls whose
  arguments parsed, which are those that enter the \<^verbatim>\<open>switch\<close>.\<close>

definition runToolCalls ::
  "('j, 'v) env \<Rightarrow> tool_call list \<Rightarrow> state \<Rightarrow> (js_thrown + chat_message list) \<times> state" where
  "runToolCalls E toolCalls st =
     (Promise_all (map (toolCallback E) toolCalls),
      st\<lparr>adapter_log := adapter_log st @
            filter (\<lambda>toolCall. \<not> isl (JSON_parse E (tc_arguments toolCall))) toolCalls\<rparr>)"

text \<open>The branch taken when the first response carries \<^verbatim>\<open>tool_calls\<close>.\<close>

definition toolRound ::
  "('j, 'v) env \<Rightarrow> chat_entry list \<Rightarrow> string \<Rightarrow> string \<Rightarrow> tool list \<Rightarrow> completion_message \<Rightarrow>
   tool_call list \<Rightarrow> state \<Rightarrow> (js_thrown + unit) \<times> state" where
  "toolRound E messages0 activeWorksheet0 txt tools0 message0 toolCalls st =
     (case runToolCalls E toolCalls st of
        (Inl error, st1) \<Rightarrow> (Inl error, st1)
      | (Inr toolResults, st1) \<Rightarrow>
          (case createCompletion E
                  (completionPayload messages0 activeWorksheet0 txt message0 toolResults tools0)
                  st1 of
             (Inl error, st2) \<Rightarrow> (Inl error, st2)
           | (Inr finalResponse, st2) \<Rightarrow>
               (case truthyContent finalResponse of
                  Some aiResponse \<Rightarrow>
                    (Inr (), addMessage \<lparr>msg_text = aiResponse, isUser = False\<rparr> st2)
                | None \<Rightarrow> (Inr (), st2))))"

text \<open>The body of the outer \<^verbatim>\<open>try\<close>. \<open>messages0\<close> and \<open>activeWorksheet0\<close> are the
  values of the state that the closure of the function holds: those at the start of
  the turn.\<close>

definition tryBlock ::
  "('j, 'v) env \<Rightarrow> string \<Rightarrow> string list \<Rightarrow> chat_entry list \<Rightarrow> string \<Rightarrow> state \<Rightarrow>
   (js_thrown + unit) \<times> state" where
  "tryBlock E txt taggedSheets messages0 activeWorksheet0 st =
     (case preStep E taggedSheets st of
        (Inl error, st1) \<Rightarrow> (Inl error, st1)
      | (Inr _, st1) \<Rightarrow>
          (case getSelectedRangeInfo E of
             Inl error \<Rightarrow> (Inl error, st1)
           | Inr (address, rowCount, columnCount) \<Rightarrow>
               (let tools0 = tools E address rowCount columnCount in
                case createCompletion E (request1 messages0 activeWorksheet0 txt tools0) st1 of
                  (Inl error, st2) \<Rightarrow> (Inl error, st2)
                | (Inr completion, st2) \<Rightarrow>
                    (case firstMessage completion of
                       None \<Rightarrow> (Inr (), st2)
                     | Some message0 \<Rightarrow>
                         (case tool_calls message0 of
                            Some toolCalls \<Rightarrow>
                              toolRound E messages0 activeWorksheet0 txt tools0 message0
                                toolCalls st2
                          | None \<Rightarrow>
                              (case truthyContent completion of
                                 Some aiResponse \<Rightarrow>
                                   (Inr (),
                                    addMessage \<lparr>msg_text = aiResponse, isUser = False\<rparr> st2)
                               | None \<Rightarrow> (Inr (), st2)))))))"

text \<open>The text of the assistant entry that the outer \<^verbatim>\<open>catch\<close> appends.\<close>

definition errorMessage :: "js_thrown \<Rightarrow> string" where
  "errorMessage error =
     (if instanceOfError error then ''Error: '' @ message error
      else if response error \<noteq> None then
        (if response error = Some (Some 401)
         then ''Invalid API key. Please check your settings.''
         else ''Sorry, I encountered an error. Please try again.'')
      else ''Sorry, I encountered an error. Please try again.'')"

text \<open>
  \<^verbatim>\<open>handleSendMessage\<close>. The result is the state after the turn, with the value
  the function rejects with, if any: \<^verbatim>\<open>getActiveWorksheetName\<close> is awaited
  before the \<^verbatim>\<open>try\<close>, so its failure leaves the function with the loading
  flag set.
\<close>

definition handleSendMessage ::
  "('j, 'v) env \<Rightarrow> string \<Rightarrow> string \<Rightarrow> string list \<Rightarrow> state \<Rightarrow> js_thrown option \<times> state" where
  "handleSendMessage E effectiveApiKey txt taggedSheets st =
     (let st0 = st\<lparr>isLoading := True\<rparr> in
      case getActiveWorksheetName E of
        Inl error \<Rightarrow> (Some error, st0)
      | Inr currentActiveWorksheet \<Rightarrow>
          (let st1 = addMessage
                 \<lparr>msg_text = ''[Active Worksheet: '' @ currentActiveWorksheet @ ''] '' @ txt,
                  isUser = True\<rparr> st0
           in if effectiveApiKey = [] then
                (None,
                 (addMessage \<lparr>msg_text = ''Please set your API key in the settings.'',
                              isUser = False\<rparr> st1)\<lparr>isLoading := False\<rparr>)
              else
                (case tryBlock E txt taggedSheets (messages st) (activeWorksheet st) st1 of
                   (Inr _, st2) \<Rightarrow> (None, st2\<lparr>isLoading := False\<rparr>)
                 | (Inl error, st2) \<Rightarrow>
                     (None,
                      (addMessage \<lparr>msg_text = errorMessage error, isUser = False\<rparr> st2)
                        \<lparr>isLoading := False\<rparr>))))"

text \<open>
  The component computes the key that the function tests:
  \<^verbatim>\<open>const effectiveApiKey = apiKey || DEFAULT_API_KEY\<close>. The constant of the
  source is a key of the model service, written out in full there; its characters
  after the prefix are left out here.
\<close>

definition DEFAULT_API_KEY :: string where
  "DEFAULT_API_KEY = ''sk-proj-...''"

definition effectiveApiKey :: "string \<Rightarrow> string" where
  "effectiveApiKey apiKey = (if apiKey \<noteq> [] then apiKey else DEFAULT_API_KEY)"

definition sendMessage ::
  "('j, 'v) env \<Rightarrow> string \<Rightarrow> string \<Rightarrow> string list \<Rightarrow> state \<Rightarrow> js_thrown option \<times> state" where
  "sendMessage E apiKey txt taggedSheets st =
     handleSendMessage E (effectiveApiKey apiKey) txt taggedSheets st"

subsection \<open>Notions used in the statements\<close>

text \<open>The value of the test \<^verbatim>\<open>completion?.choices[0]?.message?.tool_calls\<close> on a
  response.\<close>

definition proposedToolCalls :: "completion \<Rightarrow> tool_call list option" where
  "proposedToolCalls c = (case firstMessage (Some c) of None \<Rightarrow> None | Some m \<Rightarrow> tool_calls m)"

text \<open>The entry of the user, as the turn stores it.\<close>

definition userEntry :: "string \<Rightarrow> string \<Rightarrow> chat_entry" where
  "userEntry currentActiveWorksheet txt =
     \<lparr>msg_text = ''[Active Worksheet: '' @ currentActiveWorksheet @ ''] '' @ txt,
      isUser = True\<rparr>"

definition assistantEntry :: "string \<Rightarrow> chat_entry" where
  "assistantEntry s = \<lparr>msg_text = s, isUser = False\<rparr>"

text \<open>The state of a component that has just been mounted, with a client.\<close>

definition initialState :: state where
  "initialState =
     \<lparr>messages = [], activeWorksheet = ''Sheet1'', isLoading = False, openaiRef = True,
      gateway_log = [], adapter_log = []\<rparr>"

text \<open>The entries that the pre-step appends, and its outcome: what it does on the
  initial state (lemma \<open>preStep_eq\<close> shows that it does the same on every state).\<close>

definition preStepEntries :: "('j, 'v) env \<Rightarrow> string list \<Rightarrow> chat_entry list" where
  "preStepEntries E taggedSheets = messages (snd (preStep E taggedSheets initialState))"

definition preStepOutcome :: "('j, 'v) env \<Rightarrow> string list \<Rightarrow> js_thrown + unit" where
  "preStepOutcome E taggedSheets = fst (preStep E taggedSheets initialState)"

text \<open>A message of one of the three text roles.\<close>

fun textual :: "chat_message \<Rightarrow> bool" where
  "textual (SystemMsg _) = True"
| "textual (UserMsg _) = True"
| "textual (AssistantMsg _) = True"
| "textual (CompletionMsg _) = False"
| "textual (ToolMsg _ _) = False"

fun isToolMsg :: "chat_message \<Rightarrow> bool" where
  "isToolMsg (ToolMsg _ _) = True"
| "isToolMsg _ = False"

text \<open>The two notices of \<^verbatim>\<open>handleEmbedding\<close>.\<close>

definition embeddedNotice :: "string \<Rightarrow> chat_entry" where
  "embeddedNotice sheetName =
     assistantEntry (''Embedding for worksheet '' @ [CHR 0x22] @ sheetName @ [CHR 0x22] @
                     '' created successfully.'')"

definition embeddingErrorNotice :: chat_entry where
  "embeddingErrorNotice = assistantEntry ''Error creating embedding. Please try again.''"

text \<open>What the outer \<^verbatim>\<open>catch\<close> and \<^verbatim>\<open>finally\<close> make of the outcome of the
  \<^verbatim>\<open>try\<close> block.\<close>

definition finish :: "(js_thrown + unit) \<times> state \<Rightarrow> js_thrown option \<times> state" where
  "finish r =
     (None,
      (case fst r of
         Inr _ \<Rightarrow> snd r
       | Inl error \<Rightarrow> addMessage (assistantEntry (errorMessage error)) (snd r))
        \<lparr>isLoading := False\<rparr>)"

text \<open>The two requests of a turn entered in state \<open>st\<close> with the selection \<open>sel\<close>.\<close>

definition firstRequest :: "('j, 'v) env \<Rightarrow> string \<Rightarrow> state \<Rightarrow> 'j \<times> 'j \<times> 'j \<Rightarrow> chat_request" where
  "firstRequest E txt st sel =
     (case sel of (address, rowCount, columnCount) \<Rightarrow>
        request1 (messages st) (activeWorksheet st) txt (tools E address rowCount columnCount))"

definition secondRequest ::
  "('j, 'v) env \<Rightarrow> string \<Rightarrow> state \<Rightarrow> 'j \<times> 'j \<times> 'j \<Rightarrow> completion_message \<Rightarrow> chat_message list \<Rightarrow>
   chat_request" where
  "secondRequest E txt st sel message0 toolResults =
     (case sel of (address, rowCount, columnCount) \<Rightarrow>
        completionPayload (messages st) (activeWorksheet st) txt message0 toolResults
          (tools E address rowCount columnCount))"

text \<open>
  How the body of the outer \<^verbatim>\<open>try\<close> ends. \<open>turnFailure\<close> holds of the value that
  reaches the outer \<^verbatim>\<open>catch\<close>: the failure of the pre-step, of the reading of the
  selection, of the first request, of the batch (a rejected callback), or of the
  second request. \<open>turnResponse\<close> holds of the response that ends a turn without a
  failure: none when there is no client, the first response when it carries no
  \<^verbatim>\<open>tool_calls\<close>, and else the second response.
\<close>

inductive turnFailure ::
  "('j, 'v) env \<Rightarrow> string \<Rightarrow> string list \<Rightarrow> state \<Rightarrow> js_thrown \<Rightarrow> bool"
  where
    preStep_fails:
      "preStepOutcome E tagged = Inl e \<Longrightarrow> turnFailure E txt tagged st e"
  | selection_fails:
      "preStepOutcome E tagged = Inr () \<Longrightarrow> getSelectedRangeInfo E = Inl e \<Longrightarrow>
       turnFailure E txt tagged st e"
  | round1_fails:
      "preStepOutcome E tagged = Inr () \<Longrightarrow> getSelectedRangeInfo E = Inr sel \<Longrightarrow>
       openaiRef st \<Longrightarrow>
       chat_completions_create E (firstRequest E txt st sel) = Inl e \<Longrightarrow>
       turnFailure E txt tagged st e"
  | batch_rejected:
      "preStepOutcome E tagged = Inr () \<Longrightarrow> getSelectedRangeInfo E = Inr sel \<Longrightarrow>
       openaiRef st \<Longrightarrow>
       chat_completions_create E (firstRequest E txt st sel) = Inr c1 \<Longrightarrow>
       firstMessage (Some c1) = Some m \<Longrightarrow> tool_calls m = Some tcs \<Longrightarrow>
       Promise_all (map (toolCallback E) tcs) = Inl e \<Longrightarrow>
       turnFailure E txt tagged st e"
  | round2_fails:
      "preStepOutcome E tagged = Inr () \<Longrightarrow> getSelectedRangeInfo E = Inr sel \<Longrightarrow>
       openaiRef st \<Longrightarrow>
       chat_completions_create E (firstRequest E txt st sel) = Inr c1 \<Longrightarrow>
       firstMessage (Some c1) = Some m \<Longrightarrow> tool_calls m = Some tcs \<Longrightarrow>
       Promise_all (map (toolCallback E) tcs) = Inr results \<Longrightarrow>
       chat_completions_create E (secondRequest E txt st sel m results) = Inl e \<Longrightarrow>
       turnFailure E txt tagged st e"

inductive turnResponse ::
  "('j, 'v) env \<Rightarrow> string \<Rightarrow> string list \<Rightarrow> state \<Rightarrow> completion option \<Rightarrow> bool"
  where
    no_client:
      "preStepOutcome E tagged = Inr () \<Longrightarrow> getSelectedRangeInfo E = Inr sel \<Longrightarrow>
       \<not> openaiRef st \<Longrightarrow>
       turnResponse E txt tagged st None"
  | direct:
      "preStepOutcome E tagged = Inr () \<Longrightarrow> getSelectedRangeInfo E = Inr sel \<Longrightarrow>
       openaiRef st \<Longrightarrow>
       chat_completions_create E (firstRequest E txt st sel) = Inr c1 \<Longrightarrow>
       proposedToolCalls c1 = None \<Longrightarrow>
       turnResponse E txt tagged st (Some c1)"
  | round2_answers:
      "preStepOutcome E tagged = Inr () \<Longrightarrow> getSelectedRangeInfo E = Inr sel \<Longrightarrow>
       openaiRef st \<Longrightarrow>
       chat_completions_create E (firstRequest E txt st sel) = Inr c1 \<Longrightarrow>
       firstMessage (Some c1) = Some m \<Longrightarrow> tool_calls m = Some tcs \<Longrightarrow>
       Promise_all (map (toolCallback E) tcs) = Inr results \<Longrightarrow>
       chat_completions_create E (secondRequest E txt st sel m results) = Inr c2 \<Longrightarrow>
       turnResponse E txt tagged st (Some c2)"

subsection \<open>A concrete environment\<close>

text \<open>
  A small runtime and host on which the turn can be evaluated. JavaScript values are
  strings, objects, \<^verbatim>\<open>null\<close> and \<^verbatim>\<open>undefined\<close>; \<open>demo_parse\<close> knows
  four argument texts and rejects every other text as \<^verbatim>\<open>JSON.parse\<close> rejects
  a text that is not JSON, with a \<^verbatim>\<open>SyntaxError\<close>.
\<close>

datatype js_value = JUndefined | JNull | JString string | JObject "(string \<times> js_value) list"

definition demo_parse :: "string \<Rightarrow> js_thrown + js_value" where
  \<open>demo_parse s =
     (if s = ''{}'' then Inr (JObject [])
      else if s = ''null'' then Inr JNull
      else if s = ''{"cellAddress":"A1"}'' then Inr (JObject [(''cellAddress'', JString ''A1'')])
      else if s = ''{"chartType":"Line"}'' then Inr (JObject [(''chartType'', JString ''Line'')])
      else Inl (Thrown True ''Unexpected end of JSON input'' None))\<close>

definition demo_prop :: "js_value \<Rightarrow> string \<Rightarrow> js_thrown + js_value" where
  "demo_prop v k =
     (case v of
        JObject kvs \<Rightarrow> Inr (case map_of kvs k of Some x \<Rightarrow> x | None \<Rightarrow> JUndefined)
      | JString _ \<Rightarrow> Inr JUndefined
      | JNull \<Rightarrow> Inl (Thrown True (''Cannot read properties of null (reading '' @ k @ '')'') None)
      | JUndefined \<Rightarrow>
          Inl (Thrown True (''Cannot read properties of undefined (reading '' @ k @ '')'') None))"

definition demo_String :: "js_value \<Rightarrow> string" where
  "demo_String v =
     (case v of
        JString s \<Rightarrow> s
      | JUndefined \<Rightarrow> ''undefined''
      | JNull \<Rightarrow> ''null''
      | JObject _ \<Rightarrow> ''[object Object]'')"

definition demo_truthy :: "js_value \<Rightarrow> bool" where
  "demo_truthy v = (case v of JString s \<Rightarrow> s \<noteq> [] | JObject _ \<Rightarrow> True | _ \<Rightarrow> False)"

text \<open>A model service that answers the first request of a turn with \<open>first\<close> and the
  second with \<open>second\<close>: the first request ends with the text of the user, the
  second does not.\<close>

definition scripted ::
  "(js_thrown + completion) \<Rightarrow> (js_thrown + completion) \<Rightarrow> chat_request \<Rightarrow> js_thrown + completion"
  where
  "scripted first second request =
     (case last (req_messages request) of UserMsg _ \<Rightarrow> first | _ \<Rightarrow> second)"

definition reply :: "string \<Rightarrow> js_thrown + completion" where
  "reply s = Inr \<lparr>choices = [\<lparr>content = Some s, tool_calls = None\<rparr>]\<rparr>"

definition propose :: "tool_call list \<Rightarrow> js_thrown + completion" where
  "propose toolCalls = Inr \<lparr>choices = [\<lparr>content = None, tool_calls = Some toolCalls\<rparr>]\<rparr>"

definition demoEnv :: "(js_value, nat) env" where
  "demoEnv =
     \<lparr>JSON_parse = demo_parse,
      get_prop = demo_prop,
      String_of = demo_String,
      truthy = demo_truthy,
      JSON_stringify = demo_String,
      undefined_read = (\<lambda>k. Thrown True
         (''Cannot read properties of undefined (reading '' @ k @ '')'') None),
      ChartType_includes = (\<lambda>v. v = JString ''Line''),
      writeToCellOperation = (\<lambda>_ _. Inr ()),
      readFromCellOperation = (\<lambda>_. Inr (JString ''42'')),
      formatCellOperation = (\<lambda>_ _ _ _. Inr ()),
      addChartOperation = (\<lambda>_ _. Inr ()),
      getRangeData = (\<lambda>_. Inr (JString ''Sheet1!A1'', JString ''42'')),
      analyzeData = (\<lambda>_ _. Inr (JString ''one value'')),
      addPivotTableOperation = (\<lambda>_ _ _ _ _ _. Inr ()),
      manageWorksheet = (\<lambda>_ _. Inr ''Worksheet created''),
      filterDataOperation = (\<lambda>r _ _ _. Inr (r, JString ''0'')),
      sortDataOperation = (\<lambda>_ _ _ _. Inr ''Range sorted''),
      mergeCellsOperation = (\<lambda>_ _. Inr ''Cells merged''),
      unmergeCellsOperation = (\<lambda>_. Inr ''Cells unmerged''),
      autofitColumnsOperation = (\<lambda>_. Inr ''Columns fitted''),
      autofitRowsOperation = (\<lambda>_. Inr ''Rows fitted''),
      applyConditionalFormat = (\<lambda>_ _ _ _. Inr ''Format applied''),
      clearConditionalFormats = (\<lambda>_. Inr ''Formats cleared''),
      getWorksheetNames = Inr [''Sheet1'', ''Sheet2''],
      getActiveWorksheetName = Inr ''Sheet1'',
      getSelectedRangeInfo = Inr (JString ''Sheet1!A1:B2'', JString ''2'', JString ''2''),
      getCurrentSheetContent = (\<lambda>_. Inr ''a,b''),
      chat_completions_create = scripted (reply ''Hello'') (reply ''Done''),
      embeddings_create = (\<lambda>_. Inr [0])\<rparr>"

text \<open>Tool calls and responses for the evaluations below.\<close>

definition call_names :: tool_call where
  "call_names = \<lparr>tc_id = ''call_1'', tc_name = ''get_worksheet_names'', tc_arguments = ''{}''\<rparr>"

definition call_chart :: tool_call where
  \<open>call_chart =
     \<lparr>tc_id = ''call_2'', tc_name = ''add_chart'', tc_arguments = ''{"chartType":"Line"}''\<rparr>\<close>

definition call_cut_off :: tool_call where
  \<open>call_cut_off =
     \<lparr>tc_id = ''call_3'', tc_name = ''add_chart'', tc_arguments = ''{"chartType":"Line"''\<rparr>\<close>

definition call_unknown :: tool_call where
  "call_unknown = \<lparr>tc_id = ''call_4'', tc_name = ''delete_workbook'', tc_arguments = ''{}''\<rparr>"

definition call_unknown_cut_off :: tool_call where
  "call_unknown_cut_off =
     \<lparr>tc_id = ''call_5'', tc_name = ''delete_workbook'', tc_arguments = ''{''\<rparr>"

definition call_read :: tool_call where
  \<open>call_read =
     \<lparr>tc_id = ''call_6'', tc_name = ''read_from_excel'',
      tc_arguments = ''{"cellAddress":"A1"}''\<rparr>\<close>

definition rejectedKey :: js_thrown where
  "rejectedKey = Thrown True ''401 Incorrect API key provided'' (Some (Some 401))"

definition replyWithEmptyCalls :: "js_thrown + completion" where
  "replyWithEmptyCalls = Inr \<lparr>choices = [\<lparr>content = Some ''Hello'', tool_calls = Some []\<rparr>]\<rparr>"

definition emptyResponse :: "js_thrown + completion" where
  "emptyResponse = Inr \<lparr>choices = [\<lparr>content = None, tool_calls = None\<rparr>]\<rparr>"

definition demoSelection :: "js_value \<times> js_value \<times> js_value" where
  "demoSelection = (JString ''Sheet1!A1:B2'', JString ''2'', JString ''2'')"

section \<open>Lemmas\<close>

lemmas turn_defs =
  sendMessage_def effectiveApiKey_def DEFAULT_API_KEY_def
  handleSendMessage_def tryBlock_def toolRound_def runToolCalls_def createCompletion_def
  preStep_def handleEmbedding_def handleEmbedAllWorksheets_def embedWorksheet_def
  embedAllWorksheets_def getEmbedding_def
  toolCallback_def toolSwitch_def caughtResult_def inlineFailure_def new_Error_def
  andThen_def addMessage_def errorMessage_def firstMessage_def truthyContent_def
  request1_def completionPayload_def Let_def

lemmas notion_defs =
  proposedToolCalls_def userEntry_def assistantEntry_def preStepEntries_def
  embeddedNotice_def embeddingErrorNotice_def
  preStepOutcome_def firstRequest_def secondRequest_def

lemmas demo_defs =
  demoEnv_def demo_parse_def demo_prop_def demo_String_def demo_truthy_def scripted_def
  reply_def propose_def initialState_def call_names_def call_chart_def call_cut_off_def
  call_unknown_def call_unknown_cut_off_def call_read_def emptyResponse_def
  rejectedKey_def replyWithEmptyCalls_def
  demoSelection_def

subsection \<open>The pre-step only appends assistant entries\<close>

lemma handleEmbedding_eq:
  "handleEmbedding E s st =
     (fst (handleEmbedding E s initialState),
      st\<lparr>messages := messages st @ messages (snd (handleEmbedding E s initialState))\<rparr>)"
  by (simp add: handleEmbedding_def addMessage_def initialState_def split: sum.splits)

lemma handleEmbedding_entries:
  "\<forall>n \<in> set (messages (snd (handleEmbedding E s initialState))). \<not> isUser n"
  by (simp add: handleEmbedding_def addMessage_def initialState_def split: sum.splits)

lemma embedTagged_frame:
  "\<exists>out ns. (\<forall>n \<in> set ns. \<not> isUser n) \<and>
     (\<forall>st. embedTagged E ts st = (out, st\<lparr>messages := messages st @ ns\<rparr>))"
proof (induction ts)
  case Nil
  show ?case by (rule exI [of _ "Inr ()"], rule exI [of _ "[]"]) simp
next
  case (Cons s rest)
  then obtain out ns where ns: "\<forall>n \<in> set ns. \<not> isUser n"
    and rest: "\<And>st. embedTagged E rest st = (out, st\<lparr>messages := messages st @ ns\<rparr>)"
    by blast
  define r where "r = fst (handleEmbedding E s initialState)"
  define m where "m = messages (snd (handleEmbedding E s initialState))"
  have h: "\<And>st. handleEmbedding E s st = (r, st\<lparr>messages := messages st @ m\<rparr>)"
    unfolding r_def m_def by (rule handleEmbedding_eq)
  have m: "\<forall>n \<in> set m. \<not> isUser n"
    unfolding m_def by (rule handleEmbedding_entries)
  show ?case
  proof (cases r)
    case (Inl e)
    have "\<forall>st. embedTagged E (s # rest) st = (Inl e, st\<lparr>messages := messages st @ m\<rparr>)"
      by (simp add: h Inl)
    with m show ?thesis by blast
  next
    case (Inr v)
    have "\<forall>st. embedTagged E (s # rest) st = (out, st\<lparr>messages := messages st @ (m @ ns)\<rparr>)"
      by (simp add: h Inr rest)
    moreover have "\<forall>n \<in> set (m @ ns). \<not> isUser n"
      using ns m by auto
    ultimately show ?thesis by blast
  qed
qed

lemma preStep_frame:
  "\<exists>out ns. (\<forall>n \<in> set ns. \<not> isUser n) \<and>
     (\<forall>st. preStep E ts st = (out, st\<lparr>messages := messages st @ ns\<rparr>))"
proof (cases "''workbook'' \<in> set ts")
  case True
  show ?thesis
  proof (cases "embedAllWorksheets E")
    case (Inl e)
    then have "\<forall>st. preStep E ts st = (Inl e, st\<lparr>messages := messages st @
        [\<lparr>msg_text = ''Error creating embeddings for all worksheets. Please try again.'',
          isUser = False\<rparr>]\<rparr>)"
      using True by (simp add: preStep_def handleEmbedAllWorksheets_def addMessage_def)
    moreover have "\<forall>n \<in> set [\<lparr>msg_text = ''Error creating embeddings for all worksheets. Please try again.'',
          isUser = False\<rparr>]. \<not> isUser n" by simp
    ultimately show ?thesis by blast
  next
    case (Inr v)
    then have "\<forall>st. preStep E ts st = (Inr (), st\<lparr>messages := messages st @
        [\<lparr>msg_text = ''Embeddings for all worksheets created successfully.'',
          isUser = False\<rparr>]\<rparr>)"
      using True by (simp add: preStep_def handleEmbedAllWorksheets_def addMessage_def)
    moreover have "\<forall>n \<in> set [\<lparr>msg_text = ''Embeddings for all worksheets created successfully.'',
          isUser = False\<rparr>]. \<not> isUser n" by simp
    ultimately show ?thesis by blast
  qed
next
  case False
  then show ?thesis using embedTagged_frame [of E ts] by (simp add: preStep_def)
qed

lemma preStep_eq:
  "preStep E ts st = (preStepOutcome E ts, st\<lparr>messages := messages st @ preStepEntries E ts\<rparr>)"
proof -
  obtain out ns where
    eq: "\<And>st. preStep E ts st = (out, st\<lparr>messages := messages st @ ns\<rparr>)"
    using preStep_frame [of E ts] by blast
  show ?thesis
    by (simp add: eq preStepOutcome_def preStepEntries_def initialState_def)
qed

lemma preStepEntries_assistant: "n \<in> set (preStepEntries E ts) \<Longrightarrow> \<not> isUser n"
proof -
  obtain out ns where ns: "\<forall>n \<in> set ns. \<not> isUser n" and
    eq: "\<And>st. preStep E ts st = (out, st\<lparr>messages := messages st @ ns\<rparr>)"
    using preStep_frame [of E ts] by blast
  have "preStepEntries E ts = ns"
    by (simp add: eq preStepEntries_def initialState_def)
  with ns show "n \<in> set (preStepEntries E ts) \<Longrightarrow> \<not> isUser n" by simp
qed

subsection \<open>The batch\<close>

lemma Promise_all_map_Inr: "Promise_all (map Inr ys) = Inr ys"
  by (induction ys) simp_all

lemma Promise_all_Inr_D: "Promise_all ps = Inr ys \<Longrightarrow> ps = map Inr ys"
proof (induction ps arbitrary: ys)
  case Nil
  then show ?case by simp
next
  case (Cons p ps)
  from Cons.prems obtain x xs where "p = Inr x" "Promise_all ps = Inr xs" "ys = x # xs"
    by (auto split: sum.splits)
  with Cons.IH [of xs] show ?case by simp
qed

lemma Promise_all_Inr_iff: "Promise_all ps = Inr ys \<longleftrightarrow> ps = map Inr ys"
  using Promise_all_Inr_D Promise_all_map_Inr by blast

lemma Promise_all_rejects_iff: "isl (Promise_all ps) \<longleftrightarrow> (\<exists>p \<in> set ps. isl p)"
  by (induction ps) (auto split: sum.splits)

lemma toolCallback_isl: "isl (toolCallback E tc) \<longleftrightarrow> isl (JSON_parse E (tc_arguments tc))"
  by (cases "JSON_parse E (tc_arguments tc)") (simp_all add: toolCallback_def andThen_def Let_def)

lemma toolCallback_Inr:
  "toolCallback E tc = Inr m \<Longrightarrow> isToolMsg m \<and> tool_call_id m = tc_id tc"
  by (cases "JSON_parse E (tc_arguments tc)") (auto simp: toolCallback_def andThen_def Let_def)

lemma batch_results:
  assumes "Promise_all (map (toolCallback E) tcs) = Inr results"
  shows "map tool_call_id results = map tc_id tcs \<and> (\<forall>m \<in> set results. isToolMsg m)"
proof -
  from assms have eq: "map (toolCallback E) tcs = map Inr results"
    by (simp add: Promise_all_Inr_iff)
  then have len: "length results = length tcs"
    by (metis length_map)
  have each: "\<And>i. i < length tcs \<Longrightarrow> toolCallback E (tcs ! i) = Inr (results ! i)"
    using eq len by (metis nth_map)
  have "map tool_call_id results = map tc_id tcs"
    by (rule nth_equalityI) (use len each toolCallback_Inr in \<open>auto\<close>)
  moreover have "\<forall>m \<in> set results. isToolMsg m"
    using len each toolCallback_Inr by (metis in_set_conv_nth)
  ultimately show ?thesis by blast
qed

lemma batch_resolves:
  assumes "\<forall>tc \<in> set tcs. \<not> isl (JSON_parse E (tc_arguments tc))"
  shows "\<exists>results. Promise_all (map (toolCallback E) tcs) = Inr results"
proof -
  have "\<not> isl (Promise_all (map (toolCallback E) tcs))"
    using assms by (simp add: Promise_all_rejects_iff toolCallback_isl)
  then show ?thesis by (cases "Promise_all (map (toolCallback E) tcs)") auto
qed

subsection \<open>The paths of a turn\<close>

lemma turn_guard:
  assumes "getActiveWorksheetName E = Inr aw"
  shows "handleSendMessage E [] txt tagged st =
     (None, st\<lparr>messages := messages st @
                  [userEntry aw txt, assistantEntry ''Please set your API key in the settings.''],
               isLoading := False\<rparr>)"
  using assms by (simp add: handleSendMessage_def addMessage_def userEntry_def assistantEntry_def)

lemma turn_tryBlock:
  assumes "getActiveWorksheetName E = Inr aw" and "key \<noteq> []"
  shows "handleSendMessage E key txt tagged st =
     finish (tryBlock E txt tagged (messages st) (activeWorksheet st)
               (addMessage (userEntry aw txt) (st\<lparr>isLoading := True\<rparr>)))"
  using assms
  by (simp add: handleSendMessage_def finish_def userEntry_def assistantEntry_def
      split: prod.splits sum.splits)

lemma tryBlock_preStep_fails:
  assumes "preStepOutcome E tagged = Inl e"
  shows "tryBlock E txt tagged ms aw st =
     (Inl e, st\<lparr>messages := messages st @ preStepEntries E tagged\<rparr>)"
  using assms by (simp add: tryBlock_def preStep_eq)

lemma tryBlock_selection_fails:
  assumes "preStepOutcome E tagged = Inr ()" and "getSelectedRangeInfo E = Inl e"
  shows "tryBlock E txt tagged ms aw st =
     (Inl e, st\<lparr>messages := messages st @ preStepEntries E tagged\<rparr>)"
  using assms by (simp add: tryBlock_def preStep_eq)

lemma tryBlock_round1_fails:
  assumes "preStepOutcome E tagged = Inr ()" and "getSelectedRangeInfo E = Inr (a, r, c)"
    and "openaiRef st"
    and "chat_completions_create E (request1 ms aw txt (tools E a r c)) = Inl e"
  shows "tryBlock E txt tagged ms aw st =
     (Inl e, st\<lparr>messages := messages st @ preStepEntries E tagged,
                gateway_log := gateway_log st @ [request1 ms aw txt (tools E a r c)]\<rparr>)"
  using assms by (simp add: tryBlock_def preStep_eq createCompletion_def)

lemma tryBlock_direct:
  assumes "preStepOutcome E tagged = Inr ()" and "getSelectedRangeInfo E = Inr (a, r, c)"
    and "openaiRef st"
    and "chat_completions_create E (request1 ms aw txt (tools E a r c)) = Inr c1"
    and "proposedToolCalls c1 = None"
  shows "tryBlock E txt tagged ms aw st =
     (Inr (),
      st\<lparr>messages := messages st @ preStepEntries E tagged @
           (case truthyContent (Some c1) of None \<Rightarrow> [] | Some s \<Rightarrow> [assistantEntry s]),
         gateway_log := gateway_log st @ [request1 ms aw txt (tools E a r c)]\<rparr>)"
proof (cases "firstMessage (Some c1)")
  case None
  then have "truthyContent (Some c1) = None" by (simp add: truthyContent_def)
  with None assms show ?thesis
    by (simp add: tryBlock_def preStep_eq createCompletion_def Let_def)
next
  case (Some m)
  with assms(5) have "tool_calls m = None" by (simp add: proposedToolCalls_def)
  with Some assms show ?thesis
    by (cases "truthyContent (Some c1)")
       (simp_all add: tryBlock_def preStep_eq createCompletion_def Let_def addMessage_def
          assistantEntry_def)
qed

lemma tryBlock_proposed:
  assumes "preStepOutcome E tagged = Inr ()" and "getSelectedRangeInfo E = Inr (a, r, c)"
    and "openaiRef st"
    and "chat_completions_create E (request1 ms aw txt (tools E a r c)) = Inr c1"
    and "firstMessage (Some c1) = Some m" and "tool_calls m = Some tcs"
  shows "tryBlock E txt tagged ms aw st =
     toolRound E ms aw txt (tools E a r c) m tcs
       (st\<lparr>messages := messages st @ preStepEntries E tagged,
           gateway_log := gateway_log st @ [request1 ms aw txt (tools E a r c)]\<rparr>)"
  using assms
  by (simp add: tryBlock_def preStep_eq createCompletion_def Let_def)

lemma filter_parsed:
  assumes "Promise_all (map (toolCallback E) tcs) = Inr results"
  shows "filter (\<lambda>tc. \<not> isl (JSON_parse E (tc_arguments tc))) tcs = tcs"
proof -
  have "\<not> isl (Promise_all (map (toolCallback E) tcs))" using assms by simp
  then have "\<forall>tc \<in> set tcs. \<not> isl (JSON_parse E (tc_arguments tc))"
    by (simp add: Promise_all_rejects_iff toolCallback_isl)
  then show ?thesis by simp
qed

lemma toolRound_rejected:
  assumes "Promise_all (map (toolCallback E) tcs) = Inl e"
  shows "toolRound E ms aw txt ts m tcs st =
     (Inl e, st\<lparr>adapter_log := adapter_log st @
                   filter (\<lambda>tc. \<not> isl (JSON_parse E (tc_arguments tc))) tcs\<rparr>)"
  using assms by (simp add: toolRound_def runToolCalls_def)

lemma toolRound_round2_fails:
  assumes "Promise_all (map (toolCallback E) tcs) = Inr results" and "openaiRef st"
    and "chat_completions_create E (completionPayload ms aw txt m results ts) = Inl e"
  shows "toolRound E ms aw txt ts m tcs st =
     (Inl e, st\<lparr>adapter_log := adapter_log st @ tcs,
                gateway_log := gateway_log st @ [completionPayload ms aw txt m results ts]\<rparr>)"
  using assms filter_parsed [OF assms(1)]
  by (simp add: toolRound_def runToolCalls_def createCompletion_def)

lemma toolRound_round2_answers:
  assumes "Promise_all (map (toolCallback E) tcs) = Inr results" and "openaiRef st"
    and "chat_completions_create E (completionPayload ms aw txt m results ts) = Inr c2"
  shows "toolRound E ms aw txt ts m tcs st =
     (Inr (),
      st\<lparr>messages := messages st @
           (case truthyContent (Some c2) of None \<Rightarrow> [] | Some s \<Rightarrow> [assistantEntry s]),
         adapter_log := adapter_log st @ tcs,
         gateway_log := gateway_log st @ [completionPayload ms aw txt m results ts]\<rparr>)"
  using assms filter_parsed [OF assms(1)]
  by (cases "truthyContent (Some c2)")
     (simp_all add: toolRound_def runToolCalls_def createCompletion_def addMessage_def
        assistantEntry_def)

lemmas path_simps =
  finish_def addMessage_def firstRequest_def secondRequest_def

lemma turn_host_fails:
  assumes "getActiveWorksheetName E = Inl e"
  shows "handleSendMessage E key txt tagged st = (Some e, st\<lparr>isLoading := True\<rparr>)"
  using assms by (simp add: handleSendMessage_def)

lemma turn_stopped:
  assumes "getActiveWorksheetName E = Inr aw" and "key \<noteq> []"
    and "preStepOutcome E tagged = Inl e \<or>
         preStepOutcome E tagged = Inr () \<and> getSelectedRangeInfo E = Inl e"
  shows "handleSendMessage E key txt tagged st =
     (None, st\<lparr>messages := messages st @ userEntry aw txt # preStepEntries E tagged @
                    [assistantEntry (errorMessage e)],
               isLoading := False\<rparr>)"
  using assms
  by (auto simp: turn_tryBlock tryBlock_preStep_fails tryBlock_selection_fails path_simps)

lemma turn_no_client:
  assumes "getActiveWorksheetName E = Inr aw" and "key \<noteq> []"
    and "preStepOutcome E tagged = Inr ()" and "getSelectedRangeInfo E = Inr sel"
    and "\<not> openaiRef st"
  shows "handleSendMessage E key txt tagged st =
     (None, st\<lparr>messages := messages st @ userEntry aw txt # preStepEntries E tagged,
               isLoading := False\<rparr>)"
  using assms
  by (cases sel)
     (simp add: turn_tryBlock tryBlock_def preStep_eq createCompletion_def firstMessage_def
        Let_def path_simps)

lemma turn_round1_fails:
  assumes "getActiveWorksheetName E = Inr aw" and "key \<noteq> []"
    and "preStepOutcome E tagged = Inr ()" and "getSelectedRangeInfo E = Inr sel"
    and "openaiRef st"
    and "chat_completions_create E (firstRequest E txt st sel) = Inl e"
  shows "handleSendMessage E key txt tagged st =
     (None, st\<lparr>messages := messages st @ userEntry aw txt # preStepEntries E tagged @
                    [assistantEntry (errorMessage e)],
               isLoading := False,
               gateway_log := gateway_log st @ [firstRequest E txt st sel]\<rparr>)"
  using assms
  by (cases sel) (simp add: turn_tryBlock tryBlock_round1_fails path_simps)

lemma turn_direct:
  assumes "getActiveWorksheetName E = Inr aw" and "key \<noteq> []"
    and "preStepOutcome E tagged = Inr ()" and "getSelectedRangeInfo E = Inr sel"
    and "openaiRef st"
    and "chat_completions_create E (firstRequest E txt st sel) = Inr c1"
    and "proposedToolCalls c1 = None"
  shows "handleSendMessage E key txt tagged st =
     (None, st\<lparr>messages := messages st @ userEntry aw txt # preStepEntries E tagged @
                    (case truthyContent (Some c1) of None \<Rightarrow> [] | Some s \<Rightarrow> [assistantEntry s]),
               isLoading := False,
               gateway_log := gateway_log st @ [firstRequest E txt st sel]\<rparr>)"
  using assms
  by (cases sel) (simp add: turn_tryBlock tryBlock_direct path_simps)

lemma turn_batch_rejected:
  assumes "getActiveWorksheetName E = Inr aw" and "key \<noteq> []"
    and "preStepOutcome E tagged = Inr ()" and "getSelectedRangeInfo E = Inr sel"
    and "openaiRef st"
    and "chat_completions_create E (firstRequest E txt st sel) = Inr c1"
    and "firstMessage (Some c1) = Some m" and "tool_calls m = Some tcs"
    and "Promise_all (map (toolCallback E) tcs) = Inl e"
  shows "handleSendMessage E key txt tagged st =
     (None, st\<lparr>messages := messages st @ userEntry aw txt # preStepEntries E tagged @
                    [assistantEntry (errorMessage e)],
               isLoading := False,
               gateway_log := gateway_log st @ [firstRequest E txt st sel],
               adapter_log := adapter_log st @
                 filter (\<lambda>tc. \<not> isl (JSON_parse E (tc_arguments tc))) tcs\<rparr>)"
  using assms
  by (cases sel) (simp add: turn_tryBlock tryBlock_proposed toolRound_rejected path_simps)

lemma turn_round2_fails:
  assumes "getActiveWorksheetName E = Inr aw" and "key \<noteq> []"
    and "preStepOutcome E tagged = Inr ()" and "getSelectedRangeInfo E = Inr sel"
    and "openaiRef st"
    and "chat_completions_create E (firstRequest E txt st sel) = Inr c1"
    and "firstMessage (Some c1) = Some m" and "tool_calls m = Some tcs"
    and "Promise_all (map (toolCallback E) tcs) = Inr results"
    and "chat_completions_create E (secondRequest E txt st sel m results) = Inl e"
  shows "handleSendMessage E key txt tagged st =
     (None, st\<lparr>messages := messages st @ userEntry aw txt # preStepEntries E tagged @
                    [assistantEntry (errorMessage e)],
               isLoading := False,
               gateway_log := gateway_log st @
                 [firstRequest E txt st sel, secondRequest E txt st sel m results],
               adapter_log := adapter_log st @ tcs\<rparr>)"
  using assms
  by (cases sel) (simp add: turn_tryBlock tryBlock_proposed toolRound_round2_fails path_simps)

lemma turn_round2_answers:
  assumes "getActiveWorksheetName E = Inr aw" and "key \<noteq> []"
    and "preStepOutcome E tagged = Inr ()" and "getSelectedRangeInfo E = Inr sel"
    and "openaiRef st"
    and "chat_completions_create E (firstRequest E txt st sel) = Inr c1"
    and "firstMessage (Some c1) = Some m" and "tool_calls m = Some tcs"
    and "Promise_all (map (toolCallback E) tcs) = Inr results"
    and "chat_completions_create E (secondRequest E txt st sel m results) = Inr c2"
  shows "handleSendMessage E key txt tagged st =
     (None, st\<lparr>messages := messages st @ userEntry aw txt # preStepEntries E tagged @
                    (case truthyContent (Some c2) of None \<Rightarrow> [] | Some s \<Rightarrow> [assistantEntry s]),
               isLoading := False,
               gateway_log := gateway_log st @
                 [firstRequest E txt st sel, secondRequest E txt st sel m results],
               adapter_log := adapter_log st @ tcs\<rparr>)"
  using assms
  by (cases sel) (simp add: turn_tryBlock tryBlock_proposed toolRound_round2_answers path_simps)

text \<open>Every turn takes one of eight paths.\<close>

lemma turn_cases:
  obtains
    (host_fails) e where "handleSendMessage E key txt tagged st = (Some e, st\<lparr>isLoading := True\<rparr>)"
  | (no_key) aw where
      "handleSendMessage E key txt tagged st = (None, st\<lparr>messages := messages st @
                       [userEntry aw txt, assistantEntry ''Please set your API key in the settings.''],
                     isLoading := False\<rparr>)"
  | (stopped) aw e where
      "handleSendMessage E key txt tagged st = (None, st\<lparr>messages := messages st @ userEntry aw txt # preStepEntries E tagged @
                       [assistantEntry (errorMessage e)],
                     isLoading := False\<rparr>)"
  | (no_client) aw where
      "handleSendMessage E key txt tagged st = (None, st\<lparr>messages := messages st @ userEntry aw txt # preStepEntries E tagged,
                     isLoading := False\<rparr>)"
  | (round1_fails) aw sel e where
      "handleSendMessage E key txt tagged st = (None, st\<lparr>messages := messages st @ userEntry aw txt # preStepEntries E tagged @
                       [assistantEntry (errorMessage e)],
                     isLoading := False,
                     gateway_log := gateway_log st @ [firstRequest E txt st sel]\<rparr>)"
  | (direct) aw sel c1 where
      "handleSendMessage E key txt tagged st = (None, st\<lparr>messages := messages st @ userEntry aw txt # preStepEntries E tagged @
                       (case truthyContent (Some c1) of None \<Rightarrow> [] | Some s \<Rightarrow> [assistantEntry s]),
                     isLoading := False,
                     gateway_log := gateway_log st @ [firstRequest E txt st sel]\<rparr>)"
  | (batch_rejected) aw sel tcs e where
      "handleSendMessage E key txt tagged st = (None, st\<lparr>messages := messages st @ userEntry aw txt # preStepEntries E tagged @
                       [assistantEntry (errorMessage e)],
                     isLoading := False,
                     gateway_log := gateway_log st @ [firstRequest E txt st sel],
                     adapter_log := adapter_log st @
                       filter (\<lambda>tc. \<not> isl (JSON_parse E (tc_arguments tc))) tcs\<rparr>)"
  | (round2) aw sel c1 m tcs results tail where
      "chat_completions_create E (firstRequest E txt st sel) = Inr c1"
      and "firstMessage (Some c1) = Some m" and "tool_calls m = Some tcs"
      and "Promise_all (map (toolCallback E) tcs) = Inr results"
      and "length tail \<le> 1" and "\<forall>n \<in> set tail. \<not> isUser n"
      and "handleSendMessage E key txt tagged st = (None, st\<lparr>messages := messages st @ userEntry aw txt # preStepEntries E tagged @ tail,
                     isLoading := False,
                     gateway_log := gateway_log st @
                       [firstRequest E txt st sel, secondRequest E txt st sel m results],
                     adapter_log := adapter_log st @ tcs\<rparr>)"
proof (cases "getActiveWorksheetName E")
  case (Inl e)
  then show ?thesis using host_fails turn_host_fails by blast
next
  case aw: (Inr aw)
  show ?thesis
  proof (cases "key = []")
    case True
    then show ?thesis using no_key turn_guard [OF aw] by blast
  next
    case key: False
    show ?thesis
    proof (cases "preStepOutcome E tagged")
      case (Inl e)
      then show ?thesis using stopped turn_stopped [OF aw key] by blast
    next
      case (Inr u)
      then have pre: "preStepOutcome E tagged = Inr ()" by simp
      show ?thesis
      proof (cases "getSelectedRangeInfo E")
        case (Inl e)
        then show ?thesis using stopped turn_stopped [OF aw key] pre by blast
      next
        case sel: (Inr sel)
        show ?thesis
        proof (cases "openaiRef st")
          case False
          then show ?thesis
            using no_client turn_no_client [OF aw key pre sel] by blast
        next
          case client: True
          note base = aw key pre sel client
          show ?thesis
          proof (cases "chat_completions_create E (firstRequest E txt st sel)")
            case (Inl e)
            then show ?thesis
              using round1_fails turn_round1_fails [OF base] by blast
          next
            case c1: (Inr c1)
            show ?thesis
            proof (cases "proposedToolCalls c1")
              case None
              then show ?thesis
                using direct turn_direct [OF base c1] by blast
            next
              case (Some tcs)
              then obtain m where m: "firstMessage (Some c1) = Some m" "tool_calls m = Some tcs"
                by (auto simp: proposedToolCalls_def split: option.splits)
              show ?thesis
              proof (cases "Promise_all (map (toolCallback E) tcs)")
                case (Inl e)
                then show ?thesis
                  using batch_rejected turn_batch_rejected [OF base c1 m]
                  by blast
              next
                case results: (Inr results)
                show ?thesis
                proof (cases "chat_completions_create E (secondRequest E txt st sel m results)")
                  case (Inl e)
                  then show ?thesis
                    using round2 [OF c1 m results, of "[assistantEntry (errorMessage e)]"]
                      turn_round2_fails [OF base c1 m results]
                    by (simp add: assistantEntry_def)
                next
                  case (Inr c2)
                  then show ?thesis
                    using round2 [OF c1 m results, of "case truthyContent (Some c2) of
                        None \<Rightarrow> [] | Some s \<Rightarrow> [assistantEntry s]"]
                      turn_round2_answers [OF base c1 m results]
                    by (simp add: assistantEntry_def split: option.splits)
                qed
              qed
            qed
          qed
        qed
      qed
    qed
  qed
qed

subsection \<open>The messages of the two requests\<close>

lemma firstRequest_messages:
  "req_messages (firstRequest E txt st sel) =
     SystemMsg (systemPrompt1 (activeWorksheet st)) # map toChatMessage (messages st) @
     [UserMsg txt]"
  by (cases sel) (simp add: firstRequest_def request1_def)

lemma secondRequest_messages:
  "req_messages (secondRequest E txt st sel m results) =
     SystemMsg (systemPrompt2 (activeWorksheet st)) # map toChatMessage (messages st) @
     [UserMsg txt, CompletionMsg m] @ results"
  by (cases sel) (simp add: secondRequest_def completionPayload_def)

lemma textual_toChatMessage: "textual (toChatMessage n)"
  by (simp add: toChatMessage_def)

lemma firstRequest_textual: "x \<in> set (req_messages (firstRequest E txt st sel)) \<Longrightarrow> textual x"
  by (auto simp: firstRequest_messages textual_toChatMessage)

subsection \<open>A failing sheet in the pre-step\<close>

lemma embedTagged_fails_at:
  assumes "\<forall>s \<in> set before. \<not> isl (embedWorksheet E s)" and "embedWorksheet E sheet = Inl e"
  shows "embedTagged E (before @ sheet # rest) st =
     (Inl e, st\<lparr>messages := messages st @ map embeddedNotice before @ [embeddingErrorNotice]\<rparr>)"
  using assms
proof (induction before arbitrary: st)
  case Nil
  then show ?case
    by (simp add: handleEmbedding_def addMessage_def embeddingErrorNotice_def assistantEntry_def)
next
  case (Cons s before)
  from Cons.prems obtain v where v: "embedWorksheet E s = Inr v"
    by (cases "embedWorksheet E s") auto
  from Cons.prems have "\<forall>s \<in> set before. \<not> isl (embedWorksheet E s)" by simp
  from Cons.IH [OF this Cons.prems(2)] v show ?case
    by (simp add: handleEmbedding_def addMessage_def embeddedNotice_def assistantEntry_def)
qed

lemma preStep_fails_at:
  assumes "''workbook'' \<notin> set (before @ sheet # rest)"
    and "\<forall>s \<in> set before. \<not> isl (embedWorksheet E s)" and "embedWorksheet E sheet = Inl e"
  shows "preStepOutcome E (before @ sheet # rest) = Inl e"
    and "preStepEntries E (before @ sheet # rest) =
           map embeddedNotice before @ [embeddingErrorNotice]"
  using assms(1) embedTagged_fails_at [OF assms(2,3), of rest initialState]
  by (simp_all add: preStepOutcome_def preStepEntries_def preStep_def initialState_def)

subsection \<open>What the adapter and the outer handler do with a failure\<close>

lemma toolSwitch_unknown:
  assumes "name \<notin> set (map tool_name (tools E address rowCount columnCount))"
  shows "toolSwitch E name args = Inr ''I'm not sure how to perform that action.''"
  using assms by (simp add: tools_def toolSwitch_def)

lemma toolCallback_unknown:
  assumes "tc_name tc \<notin> set (map tool_name (tools E address rowCount columnCount))"
    and "JSON_parse E (tc_arguments tc) = Inr args"
  shows "toolCallback E tc = Inr (ToolMsg (tc_id tc) ''I'm not sure how to perform that action.'')"
  using assms(2) toolSwitch_unknown [OF assms(1)]
  by (simp add: toolCallback_def andThen_def)

lemma toolCallback_caught:
  assumes "JSON_parse E (tc_arguments tc) = Inr args"
    and "toolSwitch E (tc_name tc) args = Inl e"
  shows "toolCallback E tc = Inr (ToolMsg (tc_id tc) (caughtResult e))"
  using assms by (simp add: toolCallback_def andThen_def)

lemma caughtResult_Error: "instanceOfError e \<Longrightarrow> caughtResult e = ''Error: '' @ message e"
  by (simp add: caughtResult_def)

lemma batch_positions:
  assumes "\<forall>tc \<in> set tcs. \<not> isl (JSON_parse E (tc_arguments tc))"
  shows "\<exists>results. Promise_all (map (toolCallback E) tcs) = Inr results \<and>
           length results = length tcs \<and>
           (\<forall>i < length tcs. toolCallback E (tcs ! i) = Inr (results ! i) \<and>
                              tool_call_id (results ! i) = tc_id (tcs ! i))"
proof -
  from batch_resolves [OF assms] obtain results where
    r: "Promise_all (map (toolCallback E) tcs) = Inr results" by blast
  then have eq: "map (toolCallback E) tcs = map Inr results"
    by (simp add: Promise_all_Inr_iff)
  then have len: "length results = length tcs" by (metis length_map)
  have each: "\<And>i. i < length tcs \<Longrightarrow> toolCallback E (tcs ! i) = Inr (results ! i)"
    using eq len by (metis nth_map)
  with r len toolCallback_Inr show ?thesis by blast
qed

lemma errorMessage_Error: "instanceOfError e \<Longrightarrow> errorMessage e = ''Error: '' @ message e"
  by (simp add: errorMessage_def)

lemma errorMessage_rejected_key:
  "\<not> instanceOfError e \<Longrightarrow> response e = Some (Some 401) \<Longrightarrow>
   errorMessage e = ''Invalid API key. Please check your settings.''"
  by (simp add: errorMessage_def)

subsection \<open>How a turn closes\<close>

lemma turn_closing:
  assumes aw: "getActiveWorksheetName E = Inr aw" and key: "key \<noteq> []"
  shows "(\<exists>e. turnFailure E txt tagged st e \<and>
            messages (snd (handleSendMessage E key txt tagged st)) =
              messages st @ userEntry aw txt # preStepEntries E tagged @
              [assistantEntry (errorMessage e)]) \<or>
         (\<exists>c. turnResponse E txt tagged st c \<and>
            messages (snd (handleSendMessage E key txt tagged st)) =
              messages st @ userEntry aw txt # preStepEntries E tagged @
              (case truthyContent c of None \<Rightarrow> [] | Some s \<Rightarrow> [assistantEntry s]))"
proof (cases "preStepOutcome E tagged")
  case (Inl e)
  from turn_stopped [OF aw key disjI1 [OF Inl]] turnFailure.preStep_fails [OF Inl]
  show ?thesis by (intro disjI1 exI [of _ e]) simp
next
  case (Inr u)
  then have pre: "preStepOutcome E tagged = Inr ()" by simp
  show ?thesis
  proof (cases "getSelectedRangeInfo E")
    case (Inl e)
    from turn_stopped [OF aw key disjI2 [OF conjI [OF pre Inl]]]
      turnFailure.selection_fails [OF pre Inl]
    show ?thesis by (intro disjI1 exI [of _ e]) simp
  next
    case sel: (Inr sel)
    show ?thesis
    proof (cases "openaiRef st")
      case False
      have "truthyContent None = None" by (simp add: truthyContent_def firstMessage_def)
      with turn_no_client [OF aw key pre sel False] turnResponse.no_client [OF pre sel False]
      show ?thesis by (intro disjI2 exI [of _ None]) simp
    next
      case client: True
      note base = aw key pre sel client
      note reach = pre sel client
      show ?thesis
      proof (cases "chat_completions_create E (firstRequest E txt st sel)")
        case (Inl e)
        from turn_round1_fails [OF base Inl] turnFailure.round1_fails [OF reach Inl]
        show ?thesis by (intro disjI1 exI [of _ e]) simp
      next
        case c1: (Inr c1)
        show ?thesis
        proof (cases "proposedToolCalls c1")
          case None
          from turn_direct [OF base c1 None] turnResponse.direct [OF reach c1 None]
          show ?thesis by (intro disjI2 exI [of _ "Some c1"]) simp
        next
          case (Some tcs)
          then obtain m where m: "firstMessage (Some c1) = Some m" "tool_calls m = Some tcs"
            by (auto simp: proposedToolCalls_def split: option.splits)
          show ?thesis
          proof (cases "Promise_all (map (toolCallback E) tcs)")
            case (Inl e)
            from turn_batch_rejected [OF base c1 m Inl]
              turnFailure.batch_rejected [OF reach c1 m Inl]
            show ?thesis by (intro disjI1 exI [of _ e]) simp
          next
            case results: (Inr results)
            show ?thesis
            proof (cases "chat_completions_create E (secondRequest E txt st sel m results)")
              case (Inl e)
              from turn_round2_fails [OF base c1 m results Inl]
                turnFailure.round2_fails [OF reach c1 m results Inl]
              show ?thesis by (intro disjI1 exI [of _ e]) simp
            next
              case (Inr c2)
              from turn_round2_answers [OF base c1 m results Inr]
                turnResponse.round2_answers [OF reach c1 m results Inr]
              show ?thesis by (intro disjI2 exI [of _ "Some c2"]) simp
            qed
          qed
        qed
      qed
    qed
  qed
qed

lemma turn_sends_first_request:
  assumes "getActiveWorksheetName E = Inr aw" and "key \<noteq> []"
    and "preStepOutcome E tagged = Inr ()" and "getSelectedRangeInfo E = Inr sel"
    and "openaiRef st"
  shows "\<exists>rest. gateway_log (snd (handleSendMessage E key txt tagged st)) =
           gateway_log st @ firstRequest E txt st sel # rest"
proof (cases "chat_completions_create E (firstRequest E txt st sel)")
  case (Inl e)
  from turn_round1_fails [OF assms Inl] show ?thesis by simp
next
  case c1: (Inr c1)
  show ?thesis
  proof (cases "proposedToolCalls c1")
    case None
    from turn_direct [OF assms c1 None] show ?thesis by simp
  next
    case (Some tcs)
    then obtain m where m: "firstMessage (Some c1) = Some m" "tool_calls m = Some tcs"
      by (auto simp: proposedToolCalls_def split: option.splits)
    show ?thesis
    proof (cases "Promise_all (map (toolCallback E) tcs)")
      case (Inl e)
      from turn_batch_rejected [OF assms c1 m Inl] show ?thesis by simp
    next
      case results: (Inr results)
      show ?thesis
      proof (cases "chat_completions_create E (secondRequest E txt st sel m results)")
        case (Inl e)
        from turn_round2_fails [OF assms c1 m results Inl] show ?thesis by simp
      next
        case (Inr c2)
        from turn_round2_answers [OF assms c1 m results Inr] show ?thesis by simp
      qed
    qed
  qed
qed

subsection \<open>The notices of the pre-step\<close>

lemma embedTagged_notices:
  "n \<in> set (messages (snd (embedTagged E ts st))) \<Longrightarrow>
   n \<in> set (messages st) \<or> n = embeddingErrorNotice \<or> (\<exists>s \<in> set ts. n = embeddedNotice s)"
proof (induction ts arbitrary: st)
  case Nil
  then show ?case by simp
next
  case (Cons s rest)
  show ?case
  proof (cases "embedWorksheet E s")
    case (Inl e)
    with Cons.prems show ?thesis
      by (auto simp: handleEmbedding_def addMessage_def embeddingErrorNotice_def
          assistantEntry_def)
  next
    case (Inr v)
    let ?st' = "addMessage (embeddedNotice s) st"
    from Inr Cons.prems have "n \<in> set (messages (snd (embedTagged E rest ?st')))"
      by (simp add: handleEmbedding_def embeddedNotice_def assistantEntry_def)
    from Cons.IH [OF this] show ?thesis
      by (auto simp: addMessage_def)
  qed
qed

lemma preStepEntries_notices:
  assumes "n \<in> set (preStepEntries E tagged)"
  shows "n = embeddingErrorNotice \<or>
         n = assistantEntry ''Embeddings for all worksheets created successfully.'' \<or>
         n = assistantEntry ''Error creating embeddings for all worksheets. Please try again.'' \<or>
         (\<exists>s \<in> set tagged. n = embeddedNotice s)"
proof (cases "''workbook'' \<in> set tagged")
  case True
  with assms show ?thesis
    by (auto simp: preStepEntries_def preStep_def handleEmbedAllWorksheets_def addMessage_def
        initialState_def assistantEntry_def split: sum.splits)
next
  case False
  with assms have "n \<in> set (messages (snd (embedTagged E tagged initialState)))"
    by (simp add: preStepEntries_def preStep_def)
  from embedTagged_notices [OF this] show ?thesis by (auto simp: initialState_def)
qed

section \<open>The claims\<close>

text \<open>
  Claim C9, as amended. When the first response carries no \<^verbatim>\<open>tool_calls\<close> array
  and no text, or when the second response carries no text, the turn ends without
  throwing and without a new assistant entry: the store holds what it held before
  the turn, the entry of the user and the notices of the pre-step, and nothing else.
\<close>

theorem empty_response_ends_silently:
  assumes "getActiveWorksheetName E = Inr aw" and "key \<noteq> []"
    and "preStepOutcome E tagged = Inr ()" and "getSelectedRangeInfo E = Inr sel"
    and "openaiRef st"
    and "chat_completions_create E (firstRequest E txt st sel) = Inr c1"
    and "proposedToolCalls c1 = None \<and> truthyContent (Some c1) = None \<or>
         (\<exists>m tcs results c2.
            firstMessage (Some c1) = Some m \<and> tool_calls m = Some tcs \<and>
            Promise_all (map (toolCallback E) tcs) = Inr results \<and>
            chat_completions_create E (secondRequest E txt st sel m results) = Inr c2 \<and>
            truthyContent (Some c2) = None)"
  shows "fst (handleSendMessage E key txt tagged st) = None \<and>
         messages (snd (handleSendMessage E key txt tagged st)) =
           messages st @ userEntry aw txt # preStepEntries E tagged"
  using assms(7)
proof (elim disjE conjE exE)
  assume "proposedToolCalls c1 = None" and "truthyContent (Some c1) = None"
  then show ?thesis
    using turn_direct [OF assms(1-6)] by simp
next
  fix m tcs results c2
  assume "firstMessage (Some c1) = Some m" and "tool_calls m = Some tcs"
    and "Promise_all (map (toolCallback E) tcs) = Inr results"
    and "chat_completions_create E (secondRequest E txt st sel m results) = Inr c2"
    and "truthyContent (Some c2) = None"
  then show ?thesis
    using turn_round2_answers [OF assms(1-6)] by simp
qed

theorem empty_response_ends_silently_witness:
  "messages (snd (handleSendMessage
       (demoEnv\<lparr>chat_completions_create := scripted emptyResponse (reply ''Done'')\<rparr>)
       ''key'' ''hi'' [''Sheet2''] initialState)) =
     [userEntry ''Sheet1'' ''hi'',
      assistantEntry (''Embedding for worksheet '' @ [CHR 0x22] @ ''Sheet2'' @ [CHR 0x22] @
                      '' created successfully.'')] \<and>
   messages (snd (handleSendMessage
       (demoEnv\<lparr>chat_completions_create := scripted (propose [call_read]) emptyResponse\<rparr>)
       ''key'' ''hi'' [] initialState)) =
     [userEntry ''Sheet1'' ''hi'']"
proof -
  let ?A = "demoEnv\<lparr>chat_completions_create := scripted emptyResponse (reply ''Done'')\<rparr>"
  let ?B = "demoEnv\<lparr>chat_completions_create := scripted (propose [call_read]) emptyResponse\<rparr>"
  have a1: "getActiveWorksheetName ?A = Inr ''Sheet1''" by (simp add: demo_defs)
  have a2: "''key'' \<noteq> []" by simp
  have a3: "preStepOutcome ?A [''Sheet2''] = Inr ()"
    by (simp add: notion_defs turn_defs demo_defs)
  have a4: "getSelectedRangeInfo ?A = Inr demoSelection" by (simp add: demo_defs)
  have a5: "openaiRef initialState" by (simp add: demo_defs)
  have a6: "chat_completions_create ?A (firstRequest ?A ''hi'' initialState demoSelection) =
      Inr \<lparr>choices = [\<lparr>content = None, tool_calls = None\<rparr>]\<rparr>"
    by (simp add: notion_defs turn_defs demo_defs)
  have a7: "proposedToolCalls \<lparr>choices = [\<lparr>content = None, tool_calls = None\<rparr>]\<rparr> = None \<and>
      truthyContent (Some \<lparr>choices = [\<lparr>content = None, tool_calls = None\<rparr>]\<rparr>) = None"
    by (simp add: notion_defs turn_defs)
  have b1: "getActiveWorksheetName ?B = Inr ''Sheet1''" by (simp add: demo_defs)
  have b3: "preStepOutcome ?B [] = Inr ()"
    by (simp add: notion_defs turn_defs demo_defs)
  have b4: "getSelectedRangeInfo ?B = Inr demoSelection" by (simp add: demo_defs)
  have b6: "chat_completions_create ?B (firstRequest ?B ''hi'' initialState demoSelection) =
      Inr \<lparr>choices = [\<lparr>content = None, tool_calls = Some [call_read]\<rparr>]\<rparr>"
    by (simp add: notion_defs turn_defs demo_defs)
  have b7: "\<exists>m tcs results c2.
      firstMessage (Some \<lparr>choices = [\<lparr>content = None, tool_calls = Some [call_read]\<rparr>]\<rparr>) = Some m \<and>
      tool_calls m = Some tcs \<and>
      Promise_all (map (toolCallback ?B) tcs) = Inr results \<and>
      chat_completions_create ?B (secondRequest ?B ''hi'' initialState demoSelection m results) =
        Inr c2 \<and>
      truthyContent (Some c2) = None"
    by (simp add: notion_defs turn_defs demo_defs)
  have A: "messages (snd (handleSendMessage ?A ''key'' ''hi'' [''Sheet2''] initialState)) =
      messages initialState @ userEntry ''Sheet1'' ''hi'' # preStepEntries ?A [''Sheet2'']"
    using empty_response_ends_silently [OF a1 a2 a3 a4 a5 a6 disjI1 [OF a7]] by simp
  have B: "messages (snd (handleSendMessage ?B ''key'' ''hi'' [] initialState)) =
      messages initialState @ userEntry ''Sheet1'' ''hi'' # preStepEntries ?B []"
    using empty_response_ends_silently [OF b1 a2 b3 b4 a5 b6 disjI2 [OF b7]] by simp
  show ?thesis
    unfolding A B by (simp add: notion_defs turn_defs demo_defs)
qed

text \<open>
  Claim C9 as stated fails for a first response with an empty \<^verbatim>\<open>tool_calls\<close>
  array and no text: it holds neither an invocation nor a text, yet the turn sends
  the second request and stores its reply as a new assistant entry.
\<close>

theorem empty_array_without_text_gets_second_round:
  "chat_completions_create
     (demoEnv\<lparr>chat_completions_create := scripted (propose []) (reply ''Done'')\<rparr>)
     (firstRequest (demoEnv\<lparr>chat_completions_create := scripted (propose []) (reply ''Done'')\<rparr>)
        ''hi'' initialState demoSelection) =
     Inr \<lparr>choices = [\<lparr>content = None, tool_calls = Some []\<rparr>]\<rparr> \<and>
   handleSendMessage
     (demoEnv\<lparr>chat_completions_create := scripted (propose []) (reply ''Done'')\<rparr>)
     ''key'' ''hi'' [] initialState =
   (None,
    initialState\<lparr>messages := [userEntry ''Sheet1'' ''hi'', assistantEntry ''Done''],
      gateway_log :=
        [firstRequest (demoEnv\<lparr>chat_completions_create := scripted (propose []) (reply ''Done'')\<rparr>)
           ''hi'' initialState demoSelection,
         secondRequest (demoEnv\<lparr>chat_completions_create := scripted (propose []) (reply ''Done'')\<rparr>)
           ''hi'' initialState demoSelection \<lparr>content = None, tool_calls = Some []\<rparr> []]\<rparr>)"
  by (simp add: notion_defs turn_defs demo_defs)

text \<open>
  Claim C8. Whenever a turn sends a second request, the first response proposed tool
  calls, and the messages of the second request are, in this order: the system
  instruction, the entries the store held before the turn, the text of the user, the
  assistant message of the first response that carries the proposals, and the tool
  results, which follow the order of the proposals and carry their ids.
\<close>

theorem second_request_order:
  assumes "gateway_log (snd (handleSendMessage E key txt tagged st)) = gateway_log st @ [r1, r2]"
  shows "\<exists>c1 m tcs results.
           chat_completions_create E r1 = Inr c1 \<and> firstMessage (Some c1) = Some m \<and>
           tool_calls m = Some tcs \<and>
           Promise_all (map (toolCallback E) tcs) = Inr results \<and>
           map tool_call_id results = map tc_id tcs \<and>
           req_messages r2 =
             [SystemMsg (systemPrompt2 (activeWorksheet st))] @
             map toChatMessage (messages st) @
             [UserMsg txt] @ [CompletionMsg m] @ results"
proof (cases rule: turn_cases [of E key "txt" tagged st])
  case (round2 aw sel c1 m tcs results tail)
  from round2(7) assms have "r1 = firstRequest E txt st sel"
    and "r2 = secondRequest E txt st sel m results" by simp_all
  with round2(1-4) batch_results [OF round2(4)] show ?thesis
    by (auto simp: secondRequest_messages)
qed (use assms in simp_all)


theorem second_request_order_witness:
  "req_messages
     (gateway_log (snd (handleSendMessage
        (demoEnv\<lparr>chat_completions_create := scripted (propose [call_names, call_chart]) (reply ''Done'')\<rparr>)
        ''key'' ''hi'' [] (initialState\<lparr>messages := [userEntry ''Sheet1'' ''one'', assistantEntry ''two'']\<rparr>))) ! 1) =
     [SystemMsg (systemPrompt2 ''Sheet1''),
      UserMsg ''[Active Worksheet: Sheet1] one'', AssistantMsg ''two'',
      UserMsg ''hi'',
      CompletionMsg \<lparr>content = None, tool_calls = Some [call_names, call_chart]\<rparr>,
      ToolMsg ''call_1'' ''The worksheets in this workbook are: Sheet1, Sheet2'',
      ToolMsg ''call_2'' ''Error: Data range is required to create a chart.'']"
proof -
  let ?E = "demoEnv\<lparr>chat_completions_create :=
              scripted (propose [call_names, call_chart]) (reply ''Done'')\<rparr>"
  let ?st = "initialState\<lparr>messages := [userEntry ''Sheet1'' ''one'', assistantEntry ''two'']\<rparr>"
  let ?m = "\<lparr>content = None, tool_calls = Some [call_names, call_chart]\<rparr>"
  let ?results = "[ToolMsg ''call_1'' ''The worksheets in this workbook are: Sheet1, Sheet2'',
      ToolMsg ''call_2'' ''Error: Data range is required to create a chart.'']"
  let ?r1 = "firstRequest ?E ''hi'' ?st demoSelection"
  let ?r2 = "secondRequest ?E ''hi'' ?st demoSelection ?m ?results"
  have log: "gateway_log (snd (handleSendMessage ?E ''key'' ''hi'' [] ?st)) =
      gateway_log ?st @ [?r1, ?r2]"
    by (simp add: notion_defs turn_defs demo_defs)
  have r1: "chat_completions_create ?E ?r1 = Inr \<lparr>choices = [?m]\<rparr>"
    by (simp add: notion_defs turn_defs demo_defs)
  from second_request_order [OF log] obtain c1 m tcs results where
    c1: "chat_completions_create ?E ?r1 = Inr c1" and "firstMessage (Some c1) = Some m"
    and "tool_calls m = Some tcs"
    and "Promise_all (map (toolCallback ?E) tcs) = Inr results"
    and r2: "req_messages ?r2 =
       [SystemMsg (systemPrompt2 (activeWorksheet ?st))] @ map toChatMessage (messages ?st) @
       [UserMsg ''hi''] @ [CompletionMsg m] @ results"
    by blast
  with r1 have "c1 = \<lparr>choices = [?m]\<rparr>" by simp
  with \<open>firstMessage (Some c1) = Some m\<close> have "m = ?m" by (simp add: firstMessage_def)
  with \<open>tool_calls m = Some tcs\<close> have "tcs = [call_names, call_chart]" by simp
  with \<open>Promise_all (map (toolCallback ?E) tcs) = Inr results\<close> have "results = ?results"
    by (simp add: notion_defs turn_defs demo_defs)
  with r2 \<open>m = ?m\<close> log show ?thesis
    by (simp add: toChatMessage_def userEntry_def assistantEntry_def initialState_def)
qed

text \<open>
  Claim C10. A turn only appends to the store, and the theorem gives all that it
  appends. Nothing is appended when the name of the active sheet cannot be read.
  With an empty key, the entry of the user and the fixed entry that asks for the key.
  Otherwise the entry of the user, the notices of the pre-step, which are fixed
  texts, and then at most one assistant entry: the message of the failure that
  reached the outer \<^verbatim>\<open>catch\<close>, or the text of the response that ended the turn.
  So no tool result and no assistant message with proposals is stored. The request
  that opens the next turn, built from the store that this turn leaves, holds
  messages of the three text roles only, and the only other messages of a second
  request of that turn are its own assistant message with the proposals and its own
  tool results.
\<close>

theorem store_append_only_text_roles:
  "\<exists>new. messages (snd (handleSendMessage E key txt tagged st)) = messages st @ new \<and>
     (case getActiveWorksheetName E of
        Inl _ \<Rightarrow> new = []
      | Inr aw \<Rightarrow>
          if key = [] then
            new = [userEntry aw txt, assistantEntry ''Please set your API key in the settings.'']
          else
            (\<exists>tail. new = userEntry aw txt # preStepEntries E tagged @ tail \<and>
               ((\<exists>e. turnFailure E txt tagged st e \<and>
                     tail = [assistantEntry (errorMessage e)]) \<or>
                (\<exists>c. turnResponse E txt tagged st c \<and>
                     tail = (case truthyContent c of None \<Rightarrow> []
                             | Some s \<Rightarrow> [assistantEntry s]))))) \<and>
     (\<forall>n \<in> set (preStepEntries E tagged).
        n = embeddingErrorNotice \<or>
        n = assistantEntry ''Embeddings for all worksheets created successfully.'' \<or>
        n = assistantEntry ''Error creating embeddings for all worksheets. Please try again.'' \<or>
        (\<exists>s \<in> set tagged. n = embeddedNotice s)) \<and>
     (\<forall>x \<in> set (req_messages
                   (firstRequest E' txt' (snd (handleSendMessage E key txt tagged st)) sel')).
        textual x) \<and>
     filter (\<lambda>x. \<not> textual x)
       (req_messages
          (secondRequest E' txt' (snd (handleSendMessage E key txt tagged st)) sel' m'
             results')) =
       CompletionMsg m' # filter (\<lambda>x. \<not> textual x) results'"
proof -
  let ?st' = "snd (handleSendMessage E key txt tagged st)"
  have stored: "\<exists>new. messages ?st' = messages st @ new \<and>
     (case getActiveWorksheetName E of
        Inl _ \<Rightarrow> new = []
      | Inr aw \<Rightarrow>
          if key = [] then
            new = [userEntry aw txt, assistantEntry ''Please set your API key in the settings.'']
          else
            (\<exists>tail. new = userEntry aw txt # preStepEntries E tagged @ tail \<and>
               ((\<exists>e. turnFailure E txt tagged st e \<and>
                     tail = [assistantEntry (errorMessage e)]) \<or>
                (\<exists>c. turnResponse E txt tagged st c \<and>
                     tail = (case truthyContent c of None \<Rightarrow> []
                             | Some s \<Rightarrow> [assistantEntry s])))))"
  proof (cases "getActiveWorksheetName E")
    case (Inl e)
    from turn_host_fails [OF Inl] Inl show ?thesis by simp
  next
    case aw: (Inr aw)
    show ?thesis
    proof (cases "key = []")
      case True
      from turn_guard [OF aw] aw True show ?thesis by simp
    next
      case False
      from turn_closing [OF aw False, of "txt" tagged st] aw False show ?thesis
        by (elim disjE exE conjE) (simp, blast)+
    qed
  qed
  have "\<forall>x \<in> set (req_messages (firstRequest E' txt' ?st' sel')). textual x"
    by (blast dest: firstRequest_textual)
  moreover have "filter (\<lambda>x. \<not> textual x)
       (req_messages (secondRequest E' txt' ?st' sel' m' results')) =
       CompletionMsg m' # filter (\<lambda>x. \<not> textual x) results'"
    by (simp add: secondRequest_messages textual_toChatMessage)
  moreover have "\<forall>n \<in> set (preStepEntries E tagged).
        n = embeddingErrorNotice \<or>
        n = assistantEntry ''Embeddings for all worksheets created successfully.'' \<or>
        n = assistantEntry ''Error creating embeddings for all worksheets. Please try again.'' \<or>
        (\<exists>s \<in> set tagged. n = embeddedNotice s)"
    using preStepEntries_notices by blast
  ultimately show ?thesis using stored by blast
qed

theorem store_append_only_text_roles_witness:
  "messages (snd (handleSendMessage
      (demoEnv\<lparr>chat_completions_create := scripted (propose [call_read]) (reply ''Done'')\<rparr>)
      ''key'' ''hi'' [] initialState)) =
     [userEntry ''Sheet1'' ''hi'', assistantEntry ''Done''] \<and>
   turnResponse
     (demoEnv\<lparr>chat_completions_create := scripted (propose [call_read]) (reply ''Done'')\<rparr>)
     ''hi'' [] initialState
     (Some \<lparr>choices = [\<lparr>content = Some ''Done'', tool_calls = None\<rparr>]\<rparr>) \<and>
   list_all textual (req_messages (firstRequest demoEnv ''again''
     (snd (handleSendMessage
       (demoEnv\<lparr>chat_completions_create := scripted (propose [call_read]) (reply ''Done'')\<rparr>)
       ''key'' ''hi'' [] initialState)) demoSelection))"
proof -
  let ?E = "demoEnv\<lparr>chat_completions_create := scripted (propose [call_read]) (reply ''Done'')\<rparr>"
  let ?st' = "snd (handleSendMessage ?E ''key'' ''hi'' [] initialState)"
  let ?m = "\<lparr>content = None, tool_calls = Some [call_read]\<rparr>"
  let ?results = "[ToolMsg ''call_6'' (''The value in cell A1 is '' @ [CHR 0x22] @ ''42'' @ [CHR 0x22])]"
  from store_append_only_text_roles [of ?E "''key''" "''hi''" "[]" initialState
      demoEnv "''again''" demoSelection ?m "[]"]
  have "\<forall>x \<in> set (req_messages (firstRequest demoEnv ''again'' ?st' demoSelection)). textual x"
    by blast
  then have "list_all textual (req_messages (firstRequest demoEnv ''again'' ?st' demoSelection))"
    by (simp add: list_all_iff)
  moreover have "messages ?st' = [userEntry ''Sheet1'' ''hi'', assistantEntry ''Done'']"
    by (simp add: notion_defs turn_defs demo_defs)
  moreover have "turnResponse ?E ''hi'' [] initialState
     (Some \<lparr>choices = [\<lparr>content = Some ''Done'', tool_calls = None\<rparr>]\<rparr>)"
  proof (rule turnResponse.round2_answers [where sel = demoSelection and m = ?m
        and tcs = "[call_read]" and results = ?results
        and ?c1.0 = "\<lparr>choices = [?m]\<rparr>"])
    show "preStepOutcome ?E [] = Inr ()" by (simp add: notion_defs turn_defs demo_defs)
    show "getSelectedRangeInfo ?E = Inr demoSelection" by (simp add: demo_defs)
    show "openaiRef initialState" by (simp add: demo_defs)
    show "chat_completions_create ?E (firstRequest ?E ''hi'' initialState demoSelection) =
        Inr \<lparr>choices = [?m]\<rparr>"
      by (simp add: notion_defs turn_defs demo_defs)
    show "firstMessage (Some \<lparr>choices = [?m]\<rparr>) = Some ?m" by (simp add: firstMessage_def)
    show "tool_calls ?m = Some [call_read]" by simp
    show "Promise_all (map (toolCallback ?E) [call_read]) = Inr ?results"
      by (simp add: notion_defs turn_defs demo_defs)
    show "chat_completions_create ?E
        (secondRequest ?E ''hi'' initialState demoSelection ?m ?results) =
        Inr \<lparr>choices = [\<lparr>content = Some ''Done'', tool_calls = None\<rparr>]\<rparr>"
      by (simp add: notion_defs turn_defs demo_defs)
  qed
  ultimately show ?thesis by simp
qed

text \<open>
  Claim C3, as amended. The test for the second round is whether the first response
  carries a \<^verbatim>\<open>tool_calls\<close> array, which an empty array passes. When the turn
  reaches the first request and the arguments of every proposed call parse: without
  the array the service is called once and the adapter not at all; with the array
  the service is called twice and the adapter once for each proposed call.
\<close>

theorem second_round_iff_tool_calls_present:
  assumes "getActiveWorksheetName E = Inr aw" and "key \<noteq> []"
    and "preStepOutcome E tagged = Inr ()" and "getSelectedRangeInfo E = Inr sel"
    and "openaiRef st"
    and "chat_completions_create E (firstRequest E txt st sel) = Inr c1"
    and "\<forall>tcs. proposedToolCalls c1 = Some tcs \<longrightarrow>
           (\<forall>tc \<in> set tcs. \<not> isl (JSON_parse E (tc_arguments tc)))"
  shows "(proposedToolCalls c1 = None \<longrightarrow>
            gateway_log (snd (handleSendMessage E key txt tagged st)) =
              gateway_log st @ [firstRequest E txt st sel] \<and>
            adapter_log (snd (handleSendMessage E key txt tagged st)) = adapter_log st) \<and>
         (\<forall>tcs. proposedToolCalls c1 = Some tcs \<longrightarrow>
            (\<exists>r2. gateway_log (snd (handleSendMessage E key txt tagged st)) =
                    gateway_log st @ [firstRequest E txt st sel, r2]) \<and>
            adapter_log (snd (handleSendMessage E key txt tagged st)) = adapter_log st @ tcs)"
proof (intro conjI impI allI)
  assume "proposedToolCalls c1 = None"
  from turn_direct [OF assms(1-6) this]
  show "gateway_log (snd (handleSendMessage E key txt tagged st)) =
      gateway_log st @ [firstRequest E txt st sel]"
    and "adapter_log (snd (handleSendMessage E key txt tagged st)) = adapter_log st"
    by simp_all
next
  fix tcs
  assume tcs: "proposedToolCalls c1 = Some tcs"
  then obtain m where m: "firstMessage (Some c1) = Some m" "tool_calls m = Some tcs"
    by (auto simp: proposedToolCalls_def split: option.splits)
  from tcs assms(7) obtain results where
    results: "Promise_all (map (toolCallback E) tcs) = Inr results"
    using batch_resolves [of tcs E] by blast
  have "(\<exists>r2. gateway_log (snd (handleSendMessage E key txt tagged st)) =
           gateway_log st @ [firstRequest E txt st sel, r2]) \<and>
        adapter_log (snd (handleSendMessage E key txt tagged st)) = adapter_log st @ tcs"
  proof (cases "chat_completions_create E (secondRequest E txt st sel m results)")
    case (Inl e)
    from turn_round2_fails [OF assms(1-6) m results this] show ?thesis by simp
  next
    case (Inr c2)
    from turn_round2_answers [OF assms(1-6) m results this] show ?thesis by simp
  qed
  then show "\<exists>r2. gateway_log (snd (handleSendMessage E key txt tagged st)) =
           gateway_log st @ [firstRequest E txt st sel, r2]"
    and "adapter_log (snd (handleSendMessage E key txt tagged st)) = adapter_log st @ tcs"
    by blast+
qed

theorem second_round_iff_tool_calls_present_witness:
  "length (gateway_log (snd (handleSendMessage demoEnv ''key'' ''hi'' [] initialState))) = 1 \<and>
   adapter_log (snd (handleSendMessage demoEnv ''key'' ''hi'' [] initialState)) = [] \<and>
   length (gateway_log (snd (handleSendMessage
      (demoEnv\<lparr>chat_completions_create := scripted (propose [call_names, call_chart]) (reply ''Done'')\<rparr>)
      ''key'' ''hi'' [] initialState))) = 2 \<and>
   adapter_log (snd (handleSendMessage
      (demoEnv\<lparr>chat_completions_create := scripted (propose [call_names, call_chart]) (reply ''Done'')\<rparr>)
      ''key'' ''hi'' [] initialState)) = [call_names, call_chart]"
proof -
  let ?A = "demoEnv"
  let ?B = "demoEnv\<lparr>chat_completions_create :=
              scripted (propose [call_names, call_chart]) (reply ''Done'')\<rparr>"
  let ?cA = "\<lparr>choices = [\<lparr>content = Some ''Hello'', tool_calls = None\<rparr>]\<rparr>"
  let ?cB = "\<lparr>choices = [\<lparr>content = None, tool_calls = Some [call_names, call_chart]\<rparr>]\<rparr>"
  have k: "''key'' \<noteq> []" by simp
  have cl: "openaiRef initialState" by (simp add: demo_defs)
  have a1: "getActiveWorksheetName ?A = Inr ''Sheet1''" by (simp add: demo_defs)
  have a3: "preStepOutcome ?A [] = Inr ()" by (simp add: notion_defs turn_defs demo_defs)
  have a4: "getSelectedRangeInfo ?A = Inr demoSelection" by (simp add: demo_defs)
  have a6: "chat_completions_create ?A (firstRequest ?A ''hi'' initialState demoSelection) = Inr ?cA"
    by (simp add: notion_defs turn_defs demo_defs)
  have a7: "\<forall>tcs. proposedToolCalls ?cA = Some tcs \<longrightarrow>
      (\<forall>tc \<in> set tcs. \<not> isl (JSON_parse ?A (tc_arguments tc)))"
    by (simp add: notion_defs turn_defs)
  have a8: "proposedToolCalls ?cA = None" by (simp add: notion_defs turn_defs)
  have b1: "getActiveWorksheetName ?B = Inr ''Sheet1''" by (simp add: demo_defs)
  have b3: "preStepOutcome ?B [] = Inr ()" by (simp add: notion_defs turn_defs demo_defs)
  have b4: "getSelectedRangeInfo ?B = Inr demoSelection" by (simp add: demo_defs)
  have b6: "chat_completions_create ?B (firstRequest ?B ''hi'' initialState demoSelection) = Inr ?cB"
    by (simp add: notion_defs turn_defs demo_defs)
  have b8: "proposedToolCalls ?cB = Some [call_names, call_chart]"
    by (simp add: notion_defs turn_defs)
  have b7: "\<forall>tcs. proposedToolCalls ?cB = Some tcs \<longrightarrow>
      (\<forall>tc \<in> set tcs. \<not> isl (JSON_parse ?B (tc_arguments tc)))"
    by (simp add: b8) (simp add: demo_defs)
  from second_round_iff_tool_calls_present [OF a1 k a3 a4 cl a6 a7] a8
  have A: "gateway_log (snd (handleSendMessage ?A ''key'' ''hi'' [] initialState)) =
        gateway_log initialState @ [firstRequest ?A ''hi'' initialState demoSelection]"
    "adapter_log (snd (handleSendMessage ?A ''key'' ''hi'' [] initialState)) =
        adapter_log initialState"
    by blast+
  from second_round_iff_tool_calls_present [OF b1 k b3 b4 cl b6 b7] b8
  obtain r2 where B: "gateway_log (snd (handleSendMessage ?B ''key'' ''hi'' [] initialState)) =
        gateway_log initialState @ [firstRequest ?B ''hi'' initialState demoSelection, r2]"
    "adapter_log (snd (handleSendMessage ?B ''key'' ''hi'' [] initialState)) =
        adapter_log initialState @ [call_names, call_chart]"
    by blast
  show ?thesis unfolding A B by (simp add: initialState_def)
qed

text \<open>
  Claim C3 as stated fails when the first response is a reply that comes with an
  empty array of tool calls: no invocation is proposed and no adapter call is made,
  yet the service is called a second time, and the entry stored is the second reply.
\<close>

theorem second_round_without_proposals:
  "chat_completions_create
     (demoEnv\<lparr>chat_completions_create := scripted replyWithEmptyCalls (reply ''Done'')\<rparr>)
     (firstRequest
        (demoEnv\<lparr>chat_completions_create := scripted replyWithEmptyCalls (reply ''Done'')\<rparr>)
        ''hi'' initialState demoSelection) =
     Inr \<lparr>choices = [\<lparr>content = Some ''Hello'', tool_calls = Some []\<rparr>]\<rparr> \<and>
   length (gateway_log (snd (handleSendMessage
      (demoEnv\<lparr>chat_completions_create := scripted replyWithEmptyCalls (reply ''Done'')\<rparr>)
      ''key'' ''hi'' [] initialState))) = 2 \<and>
   adapter_log (snd (handleSendMessage
      (demoEnv\<lparr>chat_completions_create := scripted replyWithEmptyCalls (reply ''Done'')\<rparr>)
      ''key'' ''hi'' [] initialState)) = [] \<and>
   messages (snd (handleSendMessage
      (demoEnv\<lparr>chat_completions_create := scripted replyWithEmptyCalls (reply ''Done'')\<rparr>)
      ''key'' ''hi'' [] initialState)) =
     [userEntry ''Sheet1'' ''hi'', assistantEntry ''Done'']"
  by (simp add: notion_defs turn_defs demo_defs)

text \<open>
  Claim C5, as amended. The guard tests the effective key, which is the key given to
  the component or, when that is empty, the built-in default key; it is never empty.
  For an empty effective key the turn stores the fixed entry that asks for the key
  and ends with no call of the service and no call of the adapter; for every other
  key the turn passes the guard and is the body of the \<^verbatim>\<open>try\<close> with its
  \<^verbatim>\<open>catch\<close> and \<^verbatim>\<open>finally\<close>. So is the turn that the component runs for any
  key given to it, the empty one included: when the pre-step and the reading of the
  selection succeed and a client is present, it sends the first request.
\<close>

theorem guard_tests_effective_key:
  "effectiveApiKey apiKey \<noteq> [] \<and>
   (getActiveWorksheetName E = Inr aw \<longrightarrow>
      handleSendMessage E [] txt tagged st =
        (None,
         st\<lparr>messages := messages st @
              [userEntry aw txt, assistantEntry ''Please set your API key in the settings.''],
            isLoading := False\<rparr>) \<and>
      (key \<noteq> [] \<longrightarrow>
         handleSendMessage E key txt tagged st =
           finish (tryBlock E txt tagged (messages st) (activeWorksheet st)
                     (addMessage (userEntry aw txt) (st\<lparr>isLoading := True\<rparr>)))) \<and>
      sendMessage E apiKey txt tagged st =
        finish (tryBlock E txt tagged (messages st) (activeWorksheet st)
                  (addMessage (userEntry aw txt) (st\<lparr>isLoading := True\<rparr>))) \<and>
      (preStepOutcome E tagged = Inr () \<and> getSelectedRangeInfo E = Inr sel \<and> openaiRef st \<longrightarrow>
         (key \<noteq> [] \<longrightarrow>
            (\<exists>rest. gateway_log (snd (handleSendMessage E key txt tagged st)) =
                      gateway_log st @ firstRequest E txt st sel # rest)) \<and>
         (\<exists>rest. gateway_log (snd (sendMessage E apiKey txt tagged st)) =
                   gateway_log st @ firstRequest E txt st sel # rest)))"
proof -
  have eff: "effectiveApiKey apiKey \<noteq> []"
    by (simp add: effectiveApiKey_def DEFAULT_API_KEY_def)
  have send: "sendMessage E apiKey txt tagged st =
      handleSendMessage E (effectiveApiKey apiKey) txt tagged st"
    by (simp add: sendMessage_def)
  show ?thesis
  proof (intro conjI impI)
    show "effectiveApiKey apiKey \<noteq> []" by (rule eff)
  next
    assume aw: "getActiveWorksheetName E = Inr aw"
    show "handleSendMessage E [] txt tagged st =
        (None,
         st\<lparr>messages := messages st @
              [userEntry aw txt, assistantEntry ''Please set your API key in the settings.''],
            isLoading := False\<rparr>)"
      by (rule turn_guard [OF aw])
    show "sendMessage E apiKey txt tagged st =
        finish (tryBlock E txt tagged (messages st) (activeWorksheet st)
                  (addMessage (userEntry aw txt) (st\<lparr>isLoading := True\<rparr>)))"
      unfolding send by (rule turn_tryBlock [OF aw eff])
  next
    assume aw: "getActiveWorksheetName E = Inr aw" and key: "key \<noteq> []"
    show "handleSendMessage E key txt tagged st =
           finish (tryBlock E txt tagged (messages st) (activeWorksheet st)
                     (addMessage (userEntry aw txt) (st\<lparr>isLoading := True\<rparr>)))"
      by (rule turn_tryBlock [OF aw key])
  next
    assume aw: "getActiveWorksheetName E = Inr aw"
      and base: "preStepOutcome E tagged = Inr () \<and> getSelectedRangeInfo E = Inr sel \<and> openaiRef st"
      and key: "key \<noteq> []"
    from base show "\<exists>rest. gateway_log (snd (handleSendMessage E key txt tagged st)) =
                      gateway_log st @ firstRequest E txt st sel # rest"
      using turn_sends_first_request [OF aw key] by blast
  next
    assume aw: "getActiveWorksheetName E = Inr aw"
      and base: "preStepOutcome E tagged = Inr () \<and> getSelectedRangeInfo E = Inr sel \<and> openaiRef st"
    from base show "\<exists>rest. gateway_log (snd (sendMessage E apiKey txt tagged st)) =
                   gateway_log st @ firstRequest E txt st sel # rest"
      unfolding send using turn_sends_first_request [OF aw eff] by blast
  qed
qed

theorem guard_tests_effective_key_witness:
  "handleSendMessage demoEnv [] ''hi'' [] initialState =
     (None,
      initialState\<lparr>messages :=
        [userEntry ''Sheet1'' ''hi'', assistantEntry ''Please set your API key in the settings.'']\<rparr>) \<and>
   hd (gateway_log (snd (handleSendMessage demoEnv ''sk-my-own-key'' ''hi'' [] initialState))) =
     firstRequest demoEnv ''hi'' initialState demoSelection \<and>
   hd (gateway_log (snd (sendMessage demoEnv [] ''hi'' [] initialState))) =
     firstRequest demoEnv ''hi'' initialState demoSelection"
proof -
  have aw: "getActiveWorksheetName demoEnv = Inr ''Sheet1''" by (simp add: demo_defs)
  have base: "preStepOutcome demoEnv [] = Inr () \<and>
      getSelectedRangeInfo demoEnv = Inr demoSelection \<and> openaiRef initialState"
    by (simp add: notion_defs turn_defs demo_defs)
  have key: "''sk-my-own-key'' \<noteq> []" by simp
  note inst = guard_tests_effective_key [of "[]" demoEnv "''Sheet1''" "''hi''" "[]"
      initialState "''sk-my-own-key''" demoSelection]
  from inst aw have guard: "handleSendMessage demoEnv [] ''hi'' [] initialState =
     (None,
      initialState\<lparr>messages := messages initialState @
        [userEntry ''Sheet1'' ''hi'', assistantEntry ''Please set your API key in the settings.''],
        isLoading := False\<rparr>)"
    by blast
  from inst aw base key obtain rest1 where
    r1: "gateway_log (snd (handleSendMessage demoEnv ''sk-my-own-key'' ''hi'' [] initialState)) =
      gateway_log initialState @ firstRequest demoEnv ''hi'' initialState demoSelection # rest1"
    by blast
  from inst aw base obtain rest2 where
    r2: "gateway_log (snd (sendMessage demoEnv [] ''hi'' [] initialState)) =
      gateway_log initialState @ firstRequest demoEnv ''hi'' initialState demoSelection # rest2"
    by blast
  show ?thesis unfolding guard r1 r2 by (simp add: initialState_def)
qed

text \<open>
  Claim C5 as stated fails: entered without a key, the turn sends the first request
  and stores the reply of the model, not the entry that asks for the key.
\<close>

theorem missing_key_reaches_gateway:
  "sendMessage demoEnv [] ''hi'' [] initialState =
     (None,
      initialState\<lparr>messages := [userEntry ''Sheet1'' ''hi'', assistantEntry ''Hello''],
                   gateway_log := [firstRequest demoEnv ''hi'' initialState demoSelection]\<rparr>)"
  by (simp add: notion_defs turn_defs demo_defs)

text \<open>
  Claim C6, as amended. When the sheets are tagged by name and the embedding of one of
  them fails, \<^verbatim>\<open>handleEmbedding\<close> stores its error notice and throws the failure
  again: the turn stores a second assistant entry with the message of the failure
  and ends. The sheets after the failing one are not embedded, the logs stay as they
  were: the first request is not sent.
\<close>

theorem embedding_failure_ends_turn:
  assumes "getActiveWorksheetName E = Inr aw" and "key \<noteq> []"
    and "''workbook'' \<notin> set (before @ sheet # rest)"
    and "\<forall>s \<in> set before. \<not> isl (embedWorksheet E s)"
    and "embedWorksheet E sheet = Inl e"
  shows "handleSendMessage E key txt (before @ sheet # rest) st =
     (None,
      st\<lparr>messages := messages st @ userEntry aw txt # map embeddedNotice before @
                        [embeddingErrorNotice, assistantEntry (errorMessage e)],
         isLoading := False\<rparr>)"
proof -
  from preStep_fails_at [OF assms(3-5)]
  have out: "preStepOutcome E (before @ sheet # rest) = Inl e"
    and entries: "preStepEntries E (before @ sheet # rest) =
           map embeddedNotice before @ [embeddingErrorNotice]"
    by simp_all
  from turn_stopped [OF assms(1,2) disjI1 [OF out]] entries show ?thesis by simp
qed

theorem embedding_failure_ends_turn_witness:
  "handleSendMessage
     (demoEnv\<lparr>getCurrentSheetContent :=
        (\<lambda>s. if s = ''Sheet9'' then Inl (new_Error ''no such sheet'') else Inr ''a,b'')\<rparr>)
     ''key'' ''hi'' [''Sheet2'', ''Sheet9'', ''Sheet1''] initialState =
   (None,
    initialState\<lparr>messages :=
      [userEntry ''Sheet1'' ''hi'', embeddedNotice ''Sheet2'', embeddingErrorNotice,
       assistantEntry ''Error: no such sheet'']\<rparr>)"
proof -
  let ?E = "demoEnv\<lparr>getCurrentSheetContent :=
        (\<lambda>s. if s = ''Sheet9'' then Inl (new_Error ''no such sheet'') else Inr ''a,b'')\<rparr>"
  have h1: "getActiveWorksheetName ?E = Inr ''Sheet1''" by (simp add: demo_defs)
  have h2: "''key'' \<noteq> []" by simp
  have h3: "''workbook'' \<notin> set ([''Sheet2''] @ ''Sheet9'' # [''Sheet1''])" by simp
  have h4: "\<forall>s \<in> set [''Sheet2'']. \<not> isl (embedWorksheet ?E s)"
    by (simp add: turn_defs demo_defs)
  have h5: "embedWorksheet ?E ''Sheet9'' = Inl (new_Error ''no such sheet'')"
    by (simp add: embedWorksheet_def andThen_def demo_defs)
  from embedding_failure_ends_turn [OF h1 h2 h3 h4 h5, of "''hi''" initialState]
  show ?thesis
    by (simp add: errorMessage_def new_Error_def initialState_def)
qed

text \<open>
  Claim C6 as stated fails: after the failure of the embedding of a tagged sheet, the
  service is not called.
\<close>

theorem embedding_failure_blocks_round1:
  "embedWorksheet
     (demoEnv\<lparr>getCurrentSheetContent := (\<lambda>s. Inl (new_Error ''no such sheet''))\<rparr>)
     ''Sheet9'' = Inl (new_Error ''no such sheet'') \<and>
   gateway_log (snd (handleSendMessage
     (demoEnv\<lparr>getCurrentSheetContent := (\<lambda>s. Inl (new_Error ''no such sheet''))\<rparr>)
     ''key'' ''hi'' [''Sheet9''] initialState)) = []"
  by (simp add: notion_defs turn_defs demo_defs)

text \<open>
  Claim C1 fails on the code where the arguments of a proposed call are not JSON.
  \<^verbatim>\<open>JSON.parse\<close> stands before the \<^verbatim>\<open>try\<close> of the callback, so its error rejects
  the batch: here the first response proposes \<^verbatim>\<open>get_worksheet_names\<close> and an
  \<^verbatim>\<open>add_chart\<close> whose arguments are cut off. The valid call runs, no tool result
  is kept, the error of the parser becomes the assistant entry of the turn, and the
  second request is never sent. A failure thrown inside the \<^verbatim>\<open>try\<close> is kept as the
  content of the tool message (lemmas \<open>toolCallback_caught\<close> and \<open>batch_positions\<close>).
\<close>

theorem cut_off_arguments_abort_batch:
  "handleSendMessage
     (demoEnv\<lparr>chat_completions_create := scripted (propose [call_names, call_cut_off]) (reply ''Done'')\<rparr>)
     ''key'' ''hi'' [] initialState =
   (None,
    initialState\<lparr>messages :=
        [userEntry ''Sheet1'' ''hi'', assistantEntry ''Error: Unexpected end of JSON input''],
      gateway_log :=
        [firstRequest
           (demoEnv\<lparr>chat_completions_create :=
              scripted (propose [call_names, call_cut_off]) (reply ''Done'')\<rparr>)
           ''hi'' initialState demoSelection],
      adapter_log := [call_names]\<rparr>)"
  by (simp add: notion_defs turn_defs demo_defs)

text \<open>
  Claim C2 fails on the same input class: three calls are proposed, the arguments of
  the first are cut off, and the batch yields the rejection instead of three tool
  messages; the only request of the turn is the first, which holds no tool message.
  When every argument text parses, the results are as many as the calls and carry
  their ids, position by position (lemma \<open>batch_positions\<close>).
\<close>

theorem rejected_batch_yields_no_tool_message:
  "Promise_all (map (toolCallback demoEnv) [call_cut_off, call_names, call_read]) =
     Inl (Thrown True ''Unexpected end of JSON input'' None) \<and>
   gateway_log (snd (handleSendMessage
     (demoEnv\<lparr>chat_completions_create :=
        scripted (propose [call_cut_off, call_names, call_read]) (reply ''Done'')\<rparr>)
     ''key'' ''hi'' [] initialState)) =
   [firstRequest
      (demoEnv\<lparr>chat_completions_create :=
         scripted (propose [call_cut_off, call_names, call_read]) (reply ''Done'')\<rparr>)
      ''hi'' initialState demoSelection] \<and>
   filter isToolMsg (req_messages (firstRequest
      (demoEnv\<lparr>chat_completions_create :=
         scripted (propose [call_cut_off, call_names, call_read]) (reply ''Done'')\<rparr>)
      ''hi'' initialState demoSelection)) = []"
  by (simp add: notion_defs turn_defs demo_defs)

text \<open>
  Claim C4 fails where the call with the unknown name also has arguments that are not
  JSON: the arguments are parsed before the name is looked at, so the call gets no
  tool message, the turn ends with the error of the parser, and the result of the
  other call of the batch is dropped. With arguments that parse, an unknown name
  gets the fixed answer (lemma \<open>toolCallback_unknown\<close>).
\<close>

theorem unknown_tool_with_cut_off_arguments:
  "toolCallback demoEnv call_unknown =
     Inr (ToolMsg ''call_4'' ''I'm not sure how to perform that action.'') \<and>
   toolCallback demoEnv call_unknown_cut_off =
     Inl (Thrown True ''Unexpected end of JSON input'' None) \<and>
   handleSendMessage
     (demoEnv\<lparr>chat_completions_create :=
        scripted (propose [call_read, call_unknown_cut_off]) (reply ''Done'')\<rparr>)
     ''key'' ''hi'' [] initialState =
   (None,
    initialState\<lparr>messages :=
        [userEntry ''Sheet1'' ''hi'', assistantEntry ''Error: Unexpected end of JSON input''],
      gateway_log :=
        [firstRequest
           (demoEnv\<lparr>chat_completions_create :=
              scripted (propose [call_read, call_unknown_cut_off]) (reply ''Done'')\<rparr>)
           ''hi'' initialState demoSelection],
      adapter_log := [call_read]\<rparr>)"
  by (simp add: notion_defs turn_defs demo_defs)

text \<open>
  Claim C7 fails where the rejection of the key reaches the handler as an
  \<^verbatim>\<open>Error\<close> instance: the test \<^verbatim>\<open>error instanceof Error\<close> comes first, and the
  test of the status 401 is in the branch for values that are not \<^verbatim>\<open>Error\<close>
  instances. The entry of the turn is then the generic \<^verbatim>\<open>Error: <message>\<close>. The
  other parts of the claim hold (lemmas \<open>turn_round1_fails\<close> and \<open>turn_round2_fails\<close>).
\<close>

theorem rejected_key_gets_generic_message:
  "handleSendMessage
     (demoEnv\<lparr>chat_completions_create := scripted (Inl rejectedKey) (reply ''Done'')\<rparr>)
     ''key'' ''hi'' [] initialState =
   (None,
    initialState\<lparr>messages :=
        [userEntry ''Sheet1'' ''hi'', assistantEntry ''Error: 401 Incorrect API key provided''],
      gateway_log :=
        [firstRequest
           (demoEnv\<lparr>chat_completions_create := scripted (Inl rejectedKey) (reply ''Done'')\<rparr>)
           ''hi'' initialState demoSelection]\<rparr>) \<and>
   response rejectedKey = Some (Some 401)"
  by (simp add: notion_defs turn_defs demo_defs)

end
